theory Spec2Isabelle
  imports Main "HOL-Library.Word" "HOL-Library.AList"
begin

unbundle bit_operations_syntax

section \<open>Common types and the composite block id (common/types.h)\<close>

type_synonym InodeId = "64 word"
type_synonym BlockId = "64 word"
type_synonym WorkerId = "64 word"

definition kInvalidInodeId :: InodeId where
  "kInvalidInodeId = 0"

definition kInvalidBlockId :: BlockId where
  "kInvalidBlockId = 0"

definition kInvalidWorkerId :: WorkerId where
  "kInvalidWorkerId = 0"

definition kBlockIndexBits :: nat where
  "kBlockIndexBits = 24"

definition kBlockIndexMask :: "64 word" where
  "kBlockIndexMask = push_bit kBlockIndexBits 1 - 1"

text \<open>
  \<^verbatim>\<open>MakeBlockId(InodeId inode_id, uint32_t block_index)\<close>: the index is a 32-bit
  argument, widened to 64 bits by the \<^verbatim>\<open>&\<close> with the 64-bit mask.
\<close>

definition MakeBlockId :: "InodeId \<Rightarrow> 32 word \<Rightarrow> BlockId" where
  "MakeBlockId inode_id block_index =
     push_bit kBlockIndexBits inode_id OR (ucast block_index AND kBlockIndexMask)"

definition GetInodeId :: "BlockId \<Rightarrow> InodeId" where
  "GetInodeId block_id = drop_bit kBlockIndexBits block_id"

definition GetBlockIndex :: "BlockId \<Rightarrow> 32 word" where
  "GetBlockIndex block_id = ucast (block_id AND kBlockIndexMask)"

section \<open>Status (common/status.h)\<close>

datatype StatusCode =
    kOk | kNotFound | kAlreadyExists | kInvalidArgument | kIOError | kPermissionDenied
  | kNotImplemented | kResourceExhausted | kUnavailable | kInternal | kCancelled
  | kDeadlineExceeded

datatype Status = Status (code: StatusCode) (message: string)

definition OK :: Status where
  "OK = Status kOk []"

definition NotFound :: "string \<Rightarrow> Status" where
  "NotFound msg = Status kNotFound msg"

definition AlreadyExists :: "string \<Rightarrow> Status" where
  "AlreadyExists msg = Status kAlreadyExists msg"

definition InvalidArgument :: "string \<Rightarrow> Status" where
  "InvalidArgument msg = Status kInvalidArgument msg"

definition IOError :: "string \<Rightarrow> Status" where
  "IOError msg = Status kIOError msg"

definition ResourceExhausted :: "string \<Rightarrow> Status" where
  "ResourceExhausted msg = Status kResourceExhausted msg"

definition Unavailable :: "string \<Rightarrow> Status" where
  "Unavailable msg = Status kUnavailable msg"

definition ok :: "Status \<Rightarrow> bool" where
  "ok s = (code s = kOk)"

definition IsAlreadyExists :: "Status \<Rightarrow> bool" where
  "IsAlreadyExists s = (code s = kAlreadyExists)"

section \<open>The inode (master/inode_tree.h)\<close>

text \<open>
  \<^verbatim>\<open>struct Inode\<close>. The fields \<^verbatim>\<open>id\<close> and \<^verbatim>\<open>size\<close> are named \<open>inode_id\<close> and
  \<open>inode_size\<close>. Signed 64-bit timestamps are kept as their 64-bit patterns. The
  \<^verbatim>\<open>unordered_map\<close> of children is an association list with unique keys, read with
  \<open>map_of\<close> and written with \<open>AList.update\<close> and \<open>AList.delete\<close>.
\<close>

record Inode =
  inode_id :: InodeId
  parent_id :: InodeId
  name :: string
  is_directory :: bool
  inode_size :: "64 word"
  mode :: "32 word"
  owner :: string
  group :: string
  block_size :: "64 word"
  creation_time_ms :: "64 word"
  modification_time_ms :: "64 word"
  children :: "(string \<times> InodeId) list"
  is_complete :: bool

definition kDefaultBlockSize :: "64 word" where
  "kDefaultBlockSize = 64 * 1024 * 1024"

text \<open>The member initialisers of \<^verbatim>\<open>struct Inode\<close>; the mode is octal 0644.\<close>

definition Inode_default :: Inode where
  "Inode_default = \<lparr> inode_id = 0, parent_id = 0, name = [], is_directory = False,
     inode_size = 0, mode = 420, owner = [], group = [], block_size = kDefaultBlockSize,
     creation_time_ms = 0, modification_time_ms = 0, children = [], is_complete = True \<rparr>"

section \<open>Bytes (master/inode_entry.h)\<close>

text \<open>
  A \<^verbatim>\<open>std::string\<close> buffer is a list of 8-bit characters. \<open>le_bytes n v\<close> is the image
  in memory of an \<open>n\<close>-byte unsigned field on a little-endian host, which is what
  \<^verbatim>\<open>memcpy\<close> of the header struct writes; \<open>le_word\<close> reads it back. Fields narrower
  than 64 bits are widened before and narrowed after.
\<close>

definition low_byte :: "64 word \<Rightarrow> char" where
  "low_byte v = Char (bit v 0) (bit v 1) (bit v 2) (bit v 3) (bit v 4) (bit v 5) (bit v 6) (bit v 7)"

fun le_bytes :: "nat \<Rightarrow> 64 word \<Rightarrow> string" where
  "le_bytes 0 v = []"
| "le_bytes (Suc n) v = low_byte v # le_bytes n (drop_bit 8 v)"

fun le_word :: "string \<Rightarrow> 64 word" where
  "le_word [] = 0"
| "le_word (c # cs) = of_char c OR push_bit 8 (le_word cs)"

definition field_bytes :: "string \<Rightarrow> nat \<Rightarrow> nat \<Rightarrow> string" where
  "field_bytes data off len = take len (drop off data)"

definition EncodeBigEndian64 :: "64 word \<Rightarrow> string" where
  "EncodeBigEndian64 val = rev (le_bytes 8 val)"

definition DecodeBigEndian64 :: "string \<Rightarrow> 64 word" where
  "DecodeBigEndian64 data = le_word (rev (take 8 data))"

definition EncodeInodeKey :: "InodeId \<Rightarrow> string" where
  "EncodeInodeKey i = EncodeBigEndian64 i"

definition DecodeInodeKey :: "string \<Rightarrow> InodeId" where
  "DecodeInodeKey data = DecodeBigEndian64 data"

definition kOwnerDictKey :: "64 word" where
  "kOwnerDictKey = 0xFFFFFFFFFFFFFFFD"

definition kGroupDictKey :: "64 word" where
  "kGroupDictKey = 0xFFFFFFFFFFFFFFFE"

definition kNextIdKey :: "64 word" where
  "kNextIdKey = 0xFFFFFFFFFFFFFFFF"

definition EncodeOwnerDictKey :: string where
  "EncodeOwnerDictKey = EncodeBigEndian64 kOwnerDictKey"

definition EncodeGroupDictKey :: string where
  "EncodeGroupDictKey = EncodeBigEndian64 kGroupDictKey"

definition EncodeNextIdKey :: string where
  "EncodeNextIdKey = EncodeBigEndian64 kNextIdKey"

definition EncodeNextIdValue :: "InodeId \<Rightarrow> string" where
  "EncodeNextIdValue next_id = le_bytes 8 next_id"

definition DecodeNextIdValue :: "string \<Rightarrow> InodeId" where
  "DecodeNextIdValue data = le_word (take 8 data)"

definition EncodeEdgeKey :: "InodeId \<Rightarrow> string \<Rightarrow> string" where
  "EncodeEdgeKey parent child_name = EncodeBigEndian64 parent @ child_name"

definition DecodeEdgeKey :: "string \<Rightarrow> InodeId \<times> string" where
  "DecodeEdgeKey data =
     (if 8 \<le> length data then (DecodeBigEndian64 data, drop 8 data) else (0, []))"

definition EncodeEdgeValue :: "InodeId \<Rightarrow> string" where
  "EncodeEdgeValue child = EncodeBigEndian64 child"

definition DecodeEdgeValue :: "string \<Rightarrow> InodeId" where
  "DecodeEdgeValue data = DecodeBigEndian64 data"

section \<open>Owner and group dictionary (master/inode_entry.h)\<close>

record OwnerGroupDict =
  owners :: "string list"
  groups :: "string list"
  owner_to_id :: "string \<rightharpoonup> 8 word"
  group_to_id :: "string \<rightharpoonup> 8 word"
  dirty :: bool

definition OwnerGroupDict_empty :: OwnerGroupDict where
  "OwnerGroupDict_empty =
     \<lparr> owners = [], groups = [], owner_to_id = Map.empty, group_to_id = Map.empty,
       dirty = False \<rparr>"

text \<open>
  \<^verbatim>\<open>GetOrAdd(s, map, list)\<close> returns the id and the updated map and list, and whether
  it set the dirty flag.
\<close>

definition GetOrAdd ::
  "string \<Rightarrow> (string \<rightharpoonup> 8 word) \<Rightarrow> string list \<Rightarrow>
   8 word \<times> (string \<rightharpoonup> 8 word) \<times> string list \<times> bool" where
  "GetOrAdd s m lst =
     (if s = [] then (0, m, lst, False)
      else case m s of
        Some i \<Rightarrow> (i, m, lst, False)
      | None \<Rightarrow>
          if 255 \<le> length lst then (0, m, lst, False)
          else (let lst' = lst @ [s]; i = of_nat (length lst')
                in (i, m(s \<mapsto> i), lst', True)))"

definition GetOrAddOwnerId :: "OwnerGroupDict \<Rightarrow> string \<Rightarrow> 8 word \<times> OwnerGroupDict" where
  "GetOrAddOwnerId d s =
     (case GetOrAdd s (owner_to_id d) (owners d) of
        (i, m, lst, added) \<Rightarrow>
          (i, d\<lparr>owners := lst, owner_to_id := m, dirty := (dirty d \<or> added)\<rparr>))"

definition GetOrAddGroupId :: "OwnerGroupDict \<Rightarrow> string \<Rightarrow> 8 word \<times> OwnerGroupDict" where
  "GetOrAddGroupId d s =
     (case GetOrAdd s (group_to_id d) (groups d) of
        (i, m, lst, added) \<Rightarrow>
          (i, d\<lparr>groups := lst, group_to_id := m, dirty := (dirty d \<or> added)\<rparr>))"

definition Lookup :: "8 word \<Rightarrow> string list \<Rightarrow> string" where
  "Lookup i lst = (if i = 0 \<or> length lst < unat i then [] else lst ! (unat i - 1))"

definition GetOwner :: "OwnerGroupDict \<Rightarrow> 8 word \<Rightarrow> string" where
  "GetOwner d i = Lookup i (owners d)"

definition GetGroup :: "OwnerGroupDict \<Rightarrow> 8 word \<Rightarrow> string" where
  "GetGroup d i = Lookup i (groups d)"

definition SerializeList :: "string list \<Rightarrow> string" where
  "SerializeList lst =
     char_of (min (length lst) 255) #
     concat (map (\<lambda>s. char_of (min (length s) 255) # take (min (length s) 255) s) lst)"

text \<open>
  The loop of \<^verbatim>\<open>DeserializeList\<close>: the first argument counts the entries still to
  read (\<^verbatim>\<open>count - i\<close>), the second is the data from \<^verbatim>\<open>pos\<close> on.
\<close>

fun DeserializeList_loop :: "nat \<Rightarrow> string \<Rightarrow> string list" where
  "DeserializeList_loop 0 rest = []"
| "DeserializeList_loop (Suc n) [] = []"
| "DeserializeList_loop (Suc n) (c # rest) =
     (let actual = min (of_char c) (length rest)
      in take actual rest # DeserializeList_loop n (drop actual rest))"

definition DeserializeList :: "string \<Rightarrow> string list" where
  "DeserializeList data =
     (case data of [] \<Rightarrow> [] | c # rest \<Rightarrow> DeserializeList_loop (of_char c) rest)"

text \<open>\<^verbatim>\<open>RebuildMap\<close>: a later duplicate overwrites an earlier one.\<close>

fun RebuildMap_loop :: "nat \<Rightarrow> string list \<Rightarrow> (string \<rightharpoonup> 8 word) \<Rightarrow> (string \<rightharpoonup> 8 word)" where
  "RebuildMap_loop i [] m = m"
| "RebuildMap_loop i (s # rest) m = RebuildMap_loop (Suc i) rest (m(s \<mapsto> of_nat (i + 1)))"

definition RebuildMap :: "string list \<Rightarrow> (string \<rightharpoonup> 8 word)" where
  "RebuildMap lst = RebuildMap_loop 0 lst Map.empty"

definition LoadOwners :: "OwnerGroupDict \<Rightarrow> string \<Rightarrow> OwnerGroupDict" where
  "LoadOwners d data =
     (let lst = DeserializeList data in d\<lparr>owners := lst, owner_to_id := RebuildMap lst\<rparr>)"

definition LoadGroups :: "OwnerGroupDict \<Rightarrow> string \<Rightarrow> OwnerGroupDict" where
  "LoadGroups d data =
     (let lst = DeserializeList data in d\<lparr>groups := lst, group_to_id := RebuildMap lst\<rparr>)"

section \<open>Inode records (master/inode_entry.h)\<close>

definition kInodeEntryFlagDirectory :: "8 word" where
  "kInodeEntryFlagDirectory = 1"

definition kInodeEntryFlagComplete :: "8 word" where
  "kInodeEntryFlagComplete = 2"

definition sizeof_InodeEntry :: nat where
  "sizeof_InodeEntry = 48"

text \<open>
  \<^verbatim>\<open>SerializeInodeEntry\<close>: the 48-byte header (parent_id, size, block_size,
  creation_time_ms, modification_time_ms, mode, flags, owner_id, group_id, padding)
  followed by the name. It may add the owner and the group to the dictionary.
\<close>

definition SerializeInodeEntry :: "Inode \<Rightarrow> OwnerGroupDict \<Rightarrow> string \<times> OwnerGroupDict" where
  "SerializeInodeEntry inode d =
     (let flags = (if is_directory inode then kInodeEntryFlagDirectory else 0) OR
                  (if is_complete inode then kInodeEntryFlagComplete else 0);
          (owner_id, d1) = GetOrAddOwnerId d (owner inode);
          (group_id, d2) = GetOrAddGroupId d1 (group inode)
      in (le_bytes 8 (parent_id inode) @
          le_bytes 8 (inode_size inode) @
          le_bytes 8 (block_size inode) @
          le_bytes 8 (creation_time_ms inode) @
          le_bytes 8 (modification_time_ms inode) @
          le_bytes 4 (ucast (mode inode)) @
          le_bytes 1 (ucast flags) @
          le_bytes 1 (ucast owner_id) @
          le_bytes 1 (ucast group_id) @
          le_bytes 1 0 @
          name inode, d2))"

definition DeserializeInodeEntry :: "InodeId \<Rightarrow> string \<Rightarrow> OwnerGroupDict \<Rightarrow> Inode" where
  "DeserializeInodeEntry i data d =
     (if length data < sizeof_InodeEntry then Inode_default\<lparr>inode_id := i\<rparr>
      else
        (let flags = (ucast (le_word (field_bytes data 44 1)) :: 8 word)
         in Inode_default\<lparr>
              inode_id := i,
              parent_id := le_word (field_bytes data 0 8),
              inode_size := le_word (field_bytes data 8 8),
              block_size := le_word (field_bytes data 16 8),
              creation_time_ms := le_word (field_bytes data 24 8),
              modification_time_ms := le_word (field_bytes data 32 8),
              mode := ucast (le_word (field_bytes data 40 4)),
              is_directory := (flags AND kInodeEntryFlagDirectory \<noteq> 0),
              is_complete := (flags AND kInodeEntryFlagComplete \<noteq> 0),
              owner := GetOwner d (ucast (le_word (field_bytes data 45 1))),
              group := GetGroup d (ucast (le_word (field_bytes data 46 1))),
              name := drop sizeof_InodeEntry data\<rparr>))"

section \<open>The key-value engine\<close>

text \<open>
  RocksDB is an external library. It is modelled by what the store uses of it: two
  column families, each a set of key/value pairs with unique keys, point reads, and
  atomic batched writes. A write can fail; \<open>write_errors\<close> lists the outcomes of the
  coming \<^verbatim>\<open>db_->Write\<close> calls in order (\<open>Some msg\<close>: the call fails with that message and
  changes nothing; \<open>None\<close>, or an exhausted list: it succeeds). Reads of an open database
  find the key or report that it is absent. The read of the allocator's cursor, on which
  \<^verbatim>\<open>Recover\<close> decides where the ids go on, can fail as well: \<open>next_id_read_error\<close> is the
  outcome of \<^verbatim>\<open>db_->Get\<close> on the cursor key while the database is in this state
  (\<open>Some msg\<close>: the call fails with that status).
\<close>

datatype ColumnFamily = CF_inodes | CF_edges

datatype BatchOp = BatchPut ColumnFamily string string | BatchDelete ColumnFamily string

type_synonym WriteBatch = "BatchOp list"

record RocksDB =
  cf_inodes :: "(string \<times> string) list"
  cf_edges :: "(string \<times> string) list"
  write_errors :: "string option list"
  next_id_read_error :: "string option"

definition RocksDB_empty :: RocksDB where
  "RocksDB_empty =
     \<lparr> cf_inodes = [], cf_edges = [], write_errors = [], next_id_read_error = None \<rparr>"

fun apply_op :: "BatchOp \<Rightarrow> RocksDB \<Rightarrow> RocksDB" where
  "apply_op (BatchPut CF_inodes k v) d = d\<lparr>cf_inodes := AList.update k v (cf_inodes d)\<rparr>"
| "apply_op (BatchPut CF_edges k v) d = d\<lparr>cf_edges := AList.update k v (cf_edges d)\<rparr>"
| "apply_op (BatchDelete CF_inodes k) d = d\<lparr>cf_inodes := AList.delete k (cf_inodes d)\<rparr>"
| "apply_op (BatchDelete CF_edges k) d = d\<lparr>cf_edges := AList.delete k (cf_edges d)\<rparr>"

definition db_Write :: "RocksDB \<Rightarrow> WriteBatch \<Rightarrow> string option \<times> RocksDB" where
  "db_Write d batch =
     (case write_errors d of
        [] \<Rightarrow> (None, fold apply_op batch d)
      | None # rest \<Rightarrow> (None, fold apply_op batch (d\<lparr>write_errors := rest\<rparr>))
      | Some msg # rest \<Rightarrow> (Some msg, d\<lparr>write_errors := rest\<rparr>))"

definition db_Get :: "RocksDB \<Rightarrow> ColumnFamily \<Rightarrow> string \<Rightarrow> string option" where
  "db_Get d cf k = (case cf of CF_inodes \<Rightarrow> map_of (cf_inodes d) k
                             | CF_edges \<Rightarrow> map_of (cf_edges d) k)"

text \<open>The column family and key that a batch operation writes.\<close>

definition op_key :: "BatchOp \<Rightarrow> ColumnFamily \<times> string" where
  "op_key op = (case op of BatchPut cf k v \<Rightarrow> (cf, k) | BatchDelete cf k \<Rightarrow> (cf, k))"

section \<open>The inode store (master/inode_store.cpp)\<close>

record InodeStore =
  db :: RocksDB
  dict :: OwnerGroupDict

text \<open>\<^verbatim>\<open>InodeStore::Open\<close> on an existing database: load the two dictionaries.\<close>

definition Open :: "RocksDB \<Rightarrow> InodeStore" where
  "Open d =
     (let d0 = OwnerGroupDict_empty;
          d1 = (case db_Get d CF_inodes EncodeOwnerDictKey of
                  Some v \<Rightarrow> LoadOwners d0 v | None \<Rightarrow> d0);
          d2 = (case db_Get d CF_inodes EncodeGroupDictKey of
                  Some v \<Rightarrow> LoadGroups d1 v | None \<Rightarrow> d1)
      in \<lparr> db = d, dict = d2\<lparr>dirty := False\<rparr> \<rparr>)"

definition GetInode :: "InodeStore \<Rightarrow> InodeId \<Rightarrow> Status + Inode" where
  "GetInode s i =
     (case db_Get (db s) CF_inodes (EncodeInodeKey i) of
        None \<Rightarrow> Inl (NotFound ''inode not found'')
      | Some v \<Rightarrow> Inr (DeserializeInodeEntry i v (dict s)))"

definition MultiGetInodes :: "InodeStore \<Rightarrow> InodeId list \<Rightarrow> Inode list" where
  "MultiGetInodes s ids =
     concat (map (\<lambda>i. case db_Get (db s) CF_inodes (EncodeInodeKey i) of
                         None \<Rightarrow> []
                       | Some v \<Rightarrow> [DeserializeInodeEntry i v (dict s)]) ids)"

definition GetNextId :: "InodeStore \<Rightarrow> Status + InodeId" where
  "GetNextId s =
     (case next_id_read_error (db s) of
        Some msg \<Rightarrow> Inl (IOError (''InodeStore GetNextId: '' @ msg))
      | None \<Rightarrow>
          (case db_Get (db s) CF_inodes EncodeNextIdKey of
             None \<Rightarrow> Inl (NotFound ''next_id not found'')
           | Some v \<Rightarrow>
               if length v < 8 then Inl (IOError ''next_id value truncated'')
               else Inr (DecodeNextIdValue v)))"

definition CommitBatch :: "InodeStore \<Rightarrow> WriteBatch \<Rightarrow> Status \<times> InodeStore" where
  "CommitBatch s batch =
     (case db_Write (db s) batch of
        (Some msg, d) \<Rightarrow> (IOError (''InodeStore CommitBatch: '' @ msg), s\<lparr>db := d\<rparr>)
      | (None, d) \<Rightarrow> (OK, s\<lparr>db := d\<rparr>))"

text \<open>The status that \<^verbatim>\<open>CommitBatch\<close> builds when the write fails.\<close>

definition IsCommitFailure :: "Status \<Rightarrow> bool" where
  "IsCommitFailure st =
     (code st = kIOError \<and> take 24 (message st) = ''InodeStore CommitBatch: '')"

definition MaybePersistDict :: "InodeStore \<Rightarrow> WriteBatch \<Rightarrow> WriteBatch \<times> InodeStore" where
  "MaybePersistDict s batch =
     (if dirty (dict s)
      then (batch @ [BatchPut CF_inodes EncodeOwnerDictKey (SerializeList (owners (dict s))),
                     BatchPut CF_inodes EncodeGroupDictKey (SerializeList (groups (dict s)))],
            s\<lparr>dict := (dict s)\<lparr>dirty := False\<rparr>\<rparr>)
      else (batch, s))"

definition BatchPutInode ::
  "InodeStore \<Rightarrow> WriteBatch \<Rightarrow> InodeId \<Rightarrow> Inode \<Rightarrow> WriteBatch \<times> InodeStore" where
  "BatchPutInode s batch i inode =
     (case SerializeInodeEntry inode (dict s) of
        (bytes, d) \<Rightarrow>
          MaybePersistDict (s\<lparr>dict := d\<rparr>) (batch @ [BatchPut CF_inodes (EncodeInodeKey i) bytes]))"


definition BatchPutEdge :: "WriteBatch \<Rightarrow> InodeId \<Rightarrow> string \<Rightarrow> InodeId \<Rightarrow> WriteBatch" where
  "BatchPutEdge batch parent child_name child =
     batch @ [BatchPut CF_edges (EncodeEdgeKey parent child_name) (EncodeEdgeValue child)]"


definition BatchPutNextId :: "WriteBatch \<Rightarrow> InodeId \<Rightarrow> WriteBatch" where
  "BatchPutNextId batch next = batch @ [BatchPut CF_inodes EncodeNextIdKey (EncodeNextIdValue next)]"

text \<open>
  \<^verbatim>\<open>ScanDirectoryInodes\<close>: skip the three reserved keys, keep the records whose flags
  byte (offset 44) has the directory bit.
\<close>

definition ScanDirectoryInodes :: "InodeStore \<Rightarrow> Inode list" where
  "ScanDirectoryInodes s =
     concat (map (\<lambda>(k, v).
        if length k = 8 \<and> kOwnerDictKey \<le> DecodeBigEndian64 k then []
        else if sizeof_InodeEntry \<le> length v \<and>
                (ucast (le_word (field_bytes v 44 1)) :: 8 word) AND kInodeEntryFlagDirectory \<noteq> 0
             then [DeserializeInodeEntry (DecodeInodeKey k) v (dict s)]
             else []) (cf_inodes (db s)))"

definition ScanAllEdges :: "InodeStore \<Rightarrow> (InodeId \<times> string \<times> InodeId) list" where
  "ScanAllEdges s =
     concat (map (\<lambda>(k, v).
        if length k < 8 \<or> length v < 8 then []
        else (case DecodeEdgeKey k of (p, n) \<Rightarrow> [(p, n, DecodeEdgeValue v)]))
        (cf_edges (db s)))"

text \<open>
  Writing one inode through the store and reading it back after a cold restart: the
  record is put into a batch, the batch is committed, the store is opened again on the
  database (which reloads the two dictionaries), and the inode is read by its id.
\<close>

definition persist_roundtrip :: "InodeStore \<Rightarrow> InodeId \<Rightarrow> Inode \<Rightarrow> Status + Inode" where
  "persist_roundtrip s i inode =
     (case BatchPutInode s [] i inode of
        (batch, s1) \<Rightarrow>
          (case CommitBatch s1 batch of
             (st, s2) \<Rightarrow> if ok st then GetInode (Open (db s2)) i else Inl st))"

text \<open>
  A dictionary is well formed when it has at most 255 entries of at most 255 bytes each
  and every id in its map is the 1-based position of its string in the list. The store
  is in step with the database when, unless the dirty flag is set, reloading the
  dictionaries gives the lists it has in memory. A string fits when it is at most 255
  bytes long and is empty, or in the dictionary, or the dictionary has room.
\<close>

definition dict_ok :: "string list \<Rightarrow> (string \<rightharpoonup> 8 word) \<Rightarrow> bool" where
  "dict_ok lst m =
     (length lst \<le> 255 \<and> (\<forall>x \<in> set lst. length x \<le> 255) \<and>
      (\<forall>x i. m x = Some i \<longrightarrow> i \<noteq> 0 \<and> unat i \<le> length lst \<and> lst ! (unat i - 1) = x))"

definition store_wf :: "InodeStore \<Rightarrow> bool" where
  "store_wf s =
     (dict_ok (owners (dict s)) (owner_to_id (dict s)) \<and>
      dict_ok (groups (dict s)) (group_to_id (dict s)) \<and>
      (\<not> dirty (dict s) \<longrightarrow>
         owners (dict (Open (db s))) = owners (dict s) \<and>
         groups (dict (Open (db s))) = groups (dict s)))"

definition fits :: "string \<Rightarrow> string list \<Rightarrow> (string \<rightharpoonup> 8 word) \<Rightarrow> bool" where
  "fits x lst m = (length x \<le> 255 \<and> (x = [] \<or> m x \<noteq> None \<or> length lst < 255))"

definition next_write_ok :: "RocksDB \<Rightarrow> bool" where
  "next_write_ok d = (case write_errors d of Some msg # rest \<Rightarrow> False | _ \<Rightarrow> True)"

section \<open>The inode tree (master/inode_tree.cpp)\<close>

text \<open>
  \<open>dir_inodes\<close> is the \<^verbatim>\<open>unordered_map\<close> from inode id to inode, as an association
  list with unique keys. \<open>store\<close> is the \<^verbatim>\<open>store_\<close> pointer: \<open>None\<close> is the pure-memory
  mode, \<open>Some s\<close> the two-tier mode with the store's current state. \<^verbatim>\<open>NowMs()\<close> is the
  argument \<open>now\<close> of each operation.
\<close>

record InodeTree =
  dir_inodes :: "(InodeId \<times> Inode) list"
  root_id :: InodeId
  next_id :: InodeId
  store :: "InodeStore option"
  alloc_end :: InodeId

definition kIdAllocBatchSize :: InodeId where
  "kIdAllocBatchSize = 1000"

text \<open>The root directory as the constructor and \<^verbatim>\<open>Recover\<close> build it; the mode is octal 0755.\<close>

definition root_inode :: "InodeId \<Rightarrow> 64 word \<Rightarrow> Inode" where
  "root_inode rid now =
     Inode_default\<lparr>inode_id := rid, parent_id := kInvalidInodeId, name := [],
       is_directory := True, mode := 493, creation_time_ms := now,
       modification_time_ms := now\<rparr>"

definition InodeTree_new :: "64 word \<Rightarrow> InodeTree" where
  "InodeTree_new now =
     \<lparr> dir_inodes = [(1, root_inode 1 now)], root_id = 1, next_id = 2, store = None,
       alloc_end = 2 \<rparr>"

definition SetStore :: "InodeTree \<Rightarrow> InodeStore \<Rightarrow> InodeTree" where
  "SetStore t s = t\<lparr>store := Some s\<rparr>"

text \<open>
  \<^verbatim>\<open>dir_inodes_[i]\<close>: \<^verbatim>\<open>operator[]\<close> inserts a default inode when the key is absent
  (\<open>dir_touch\<close>) and gives the entry (\<open>dir_get\<close>). \<open>dir_modify\<close> is an assignment through
  that reference.
\<close>

definition dir_touch :: "(InodeId \<times> Inode) list \<Rightarrow> InodeId \<Rightarrow> (InodeId \<times> Inode) list" where
  "dir_touch dirs i = (case map_of dirs i of Some n \<Rightarrow> dirs | None \<Rightarrow> dirs @ [(i, Inode_default)])"

definition dir_get :: "(InodeId \<times> Inode) list \<Rightarrow> InodeId \<Rightarrow> Inode" where
  "dir_get dirs i = (case map_of dirs i of Some n \<Rightarrow> n | None \<Rightarrow> Inode_default)"

definition dir_modify ::
  "(InodeId \<times> Inode) list \<Rightarrow> InodeId \<Rightarrow> (Inode \<Rightarrow> Inode) \<Rightarrow> (InodeId \<times> Inode) list" where
  "dir_modify dirs i f = AList.update i (f (dir_get dirs i)) dirs"

definition set_child :: "string \<Rightarrow> InodeId \<Rightarrow> Inode \<Rightarrow> Inode" where
  "set_child n c node = node\<lparr>children := AList.update n c (children node)\<rparr>"


text \<open>\<^verbatim>\<open>SplitPath\<close>: the parts between slashes, empty parts dropped.\<close>

fun split_slash :: "string \<Rightarrow> string \<Rightarrow> string list" where
  "split_slash cur [] = [cur]"
| "split_slash cur (c # cs) =
     (if c = CHR ''/'' then cur # split_slash [] cs else split_slash (cur @ [c]) cs)"

definition SplitPath :: "string \<Rightarrow> string list" where
  "SplitPath path = filter (\<lambda>part. part \<noteq> []) (split_slash [] path)"

definition AllocateId :: "InodeTree \<Rightarrow> InodeId \<times> InodeTree" where
  "AllocateId t =
     (let i = next_id t; t1 = t\<lparr>next_id := next_id t + 1\<rparr>
      in case store t1 of
           Some s \<Rightarrow>
             if alloc_end t1 \<le> i then
               (let t2 = t1\<lparr>alloc_end := i + kIdAllocBatchSize\<rparr>;
                    batch = BatchPutNextId [] (alloc_end t2);
                    (st, s') = CommitBatch s batch
                in (i, t2\<lparr>store := Some s'\<rparr>))
             else (i, t1)
         | None \<Rightarrow> (i, t1))"

fun ResolvePath_loop ::
  "(InodeId \<times> Inode) list \<Rightarrow> string \<Rightarrow> InodeId \<Rightarrow> string list \<Rightarrow> Status + InodeId" where
  "ResolvePath_loop dirs path current [] = Inr current"
| "ResolvePath_loop dirs path current (part # rest) =
     (case map_of dirs current of
        None \<Rightarrow> Inl (NotFound ''inode missing'')
      | Some node \<Rightarrow>
          if \<not> is_directory node then Inl (InvalidArgument (''not a directory: '' @ part))
          else case map_of (children node) part of
                 None \<Rightarrow> Inl (NotFound (''path not found: '' @ path))
               | Some c \<Rightarrow> ResolvePath_loop dirs path c rest)"

definition ResolvePathLocked :: "InodeTree \<Rightarrow> string \<Rightarrow> Status + InodeId" where
  "ResolvePathLocked t path = ResolvePath_loop (dir_inodes t) path (root_id t) (SplitPath path)"

text \<open>
  The loop that \<^verbatim>\<open>CreateFile\<close>, \<^verbatim>\<open>Delete\<close> and \<^verbatim>\<open>Rename\<close> run over all parts but the
  last to find the parent; the two messages differ from caller to caller.
\<close>

fun ResolveParent_loop ::
  "(InodeId \<times> Inode) list \<Rightarrow> string \<Rightarrow> (string \<Rightarrow> string) \<Rightarrow> InodeId \<Rightarrow> string list \<Rightarrow>
   Status + InodeId" where
  "ResolveParent_loop dirs missing notfound current [] = Inr current"
| "ResolveParent_loop dirs missing notfound current (part # rest) =
     (case map_of dirs current of
        None \<Rightarrow> Inl (NotFound missing)
      | Some node \<Rightarrow>
          (case map_of (children node) part of
             None \<Rightarrow> Inl (NotFound (notfound part))
           | Some c \<Rightarrow> ResolveParent_loop dirs missing notfound c rest))"

definition Recover :: "InodeTree \<Rightarrow> 64 word \<Rightarrow> Status \<times> InodeTree" where
  "Recover t now =
     (case store t of
        None \<Rightarrow> (OK, t)
      | Some s \<Rightarrow>
          (let dirs = fold (\<lambda>d m. AList.update (inode_id d) d m) (ScanDirectoryInodes s) [];
               dirs2 = fold (\<lambda>(p, n, c) m.
                              case map_of m p of
                                None \<Rightarrow> m
                              | Some node \<Rightarrow> AList.update p (set_child n c node) m)
                            (ScanAllEdges s) dirs;
               max_id = fold (\<lambda>(i, _) m. max m i) dirs2 1;
               nid = (case GetNextId s of
                        Inr stored \<Rightarrow> if 0 < stored then stored else max_id + 1
                      | Inl _ \<Rightarrow> max_id + 1);
               t1 = t\<lparr>dir_inodes := dirs2, next_id := nid, alloc_end := nid\<rparr>
           in if map_of dirs2 (root_id t) = None then
                (let root = root_inode (root_id t) now;
                     (batch, s1) = BatchPutInode s [] (root_id t) root;
                     (st, s2) = CommitBatch s1 batch;
                     t2 = t1\<lparr>store := Some s2\<rparr>
                 in if \<not> ok st then (st, t2)
                    else (OK, t2\<lparr>dir_inodes := AList.update (root_id t) root dirs2\<rparr>))
              else (OK, t1)))"

definition GetInodeByPath :: "InodeTree \<Rightarrow> string \<Rightarrow> Status + Inode" where
  "GetInodeByPath t path =
     (case ResolvePathLocked t path of
        Inl st \<Rightarrow> Inl st
      | Inr i \<Rightarrow>
          (case map_of (dir_inodes t) i of
             Some node \<Rightarrow> Inr node
           | None \<Rightarrow>
               (case store t of
                  Some s \<Rightarrow> GetInode s i
                | None \<Rightarrow> Inl (NotFound ''inode missing''))))"

definition GetInodeById :: "InodeTree \<Rightarrow> InodeId \<Rightarrow> Status + Inode" where
  "GetInodeById t i =
     (case map_of (dir_inodes t) i of
        Some node \<Rightarrow> Inr node
      | None \<Rightarrow>
          (case store t of
             Some s \<Rightarrow> GetInode s i
           | None \<Rightarrow> Inl (NotFound ''inode not found'')))"

definition CreateFile ::
  "InodeTree \<Rightarrow> string \<Rightarrow> 32 word \<Rightarrow> 64 word \<Rightarrow> Status \<times> InodeId option \<times> InodeTree" where
  "CreateFile t path md now =
     (let parts = SplitPath path in
      if parts = [] then (InvalidArgument ''empty path'', None, t)
      else
        case ResolveParent_loop (dir_inodes t) ''parent missing''
               (\<lambda>part. ''parent directory not found: '' @ part) (root_id t) (butlast parts) of
          Inl st \<Rightarrow> (st, None, t)
        | Inr pid \<Rightarrow>
            (let t1 = t\<lparr>dir_inodes := dir_touch (dir_inodes t) pid\<rparr>;
                 parent = dir_get (dir_inodes t1) pid;
                 filename = last parts
             in if \<not> is_directory parent
                then (InvalidArgument ''parent is not a directory'', None, t1)
                else if map_of (children parent) filename \<noteq> None
                then (AlreadyExists (''file already exists: '' @ path), None, t1)
                else
                  (let (new_id, t2) = AllocateId t1;
                       inode = Inode_default\<lparr>inode_id := new_id, parent_id := pid,
                                 name := filename, is_directory := False, mode := md,
                                 creation_time_ms := now, modification_time_ms := now,
                                 is_complete := False\<rparr>
                   in case store t2 of
                        Some s \<Rightarrow>
                          (let (batch, s1) = BatchPutInode s [] new_id inode;
                               batch2 = BatchPutEdge batch pid filename new_id;
                               (st, s2) = CommitBatch s1 batch2;
                               t3 = t2\<lparr>store := Some s2\<rparr>
                           in if \<not> ok st then (st, None, t3)
                              else (OK, Some new_id,
                                    t3\<lparr>dir_inodes :=
                                         dir_modify (dir_inodes t3) pid (set_child filename new_id)\<rparr>))
                      | None \<Rightarrow>
                          (OK, Some new_id,
                           t2\<lparr>dir_inodes :=
                                AList.update new_id inode
                                  (dir_modify (dir_inodes t2) pid (set_child filename new_id))\<rparr>))))"

text \<open>
  One iteration of the loop of \<^verbatim>\<open>CreateDirectory\<close> over the path parts: \<open>Inl\<close> is a
  \<^verbatim>\<open>return\<close> (status, what was written to \<^verbatim>\<open>*out_id\<close>, tree), \<open>Inr\<close> goes on with the next
  part from the given inode. \<open>last_part\<close> is \<^verbatim>\<open>i + 1 == parts.size()\<close>.
\<close>

definition CreateDirectory_step ::
  "InodeTree \<Rightarrow> string \<Rightarrow> 32 word \<Rightarrow> bool \<Rightarrow> 64 word \<Rightarrow> InodeId \<Rightarrow> string \<Rightarrow> bool \<Rightarrow>
   (Status \<times> InodeId option \<times> InodeTree) + (InodeId \<times> InodeTree)" where
  "CreateDirectory_step t path md recursive now current part last_part =
     (let t1 = t\<lparr>dir_inodes := dir_touch (dir_inodes t) current\<rparr>;
          node = dir_get (dir_inodes t1) current
      in if \<not> is_directory node then Inl (InvalidArgument ''not a directory'', None, t1)
         else case map_of (children node) part of
           Some c \<Rightarrow>
             if last_part then Inl (AlreadyExists (''directory exists: '' @ path), Some c, t1)
             else Inr (c, t1)
         | None \<Rightarrow>
             if \<not> recursive \<and> \<not> last_part
             then Inl (NotFound (''parent not found: '' @ part), None, t1)
             else
               (let (new_id, t2) = AllocateId t1;
                    dir = Inode_default\<lparr>inode_id := new_id, parent_id := current,
                            name := part, is_directory := True, mode := md,
                            creation_time_ms := now, modification_time_ms := now\<rparr>;
                    (st, t3) =
                      (case store t2 of
                         Some s \<Rightarrow>
                           (let (batch, s1) = BatchPutInode s [] new_id dir;
                                batch2 = BatchPutEdge batch current part new_id;
                                (st, s2) = CommitBatch s1 batch2
                            in (st, t2\<lparr>store := Some s2\<rparr>))
                       | None \<Rightarrow> (OK, t2))
                in if \<not> ok st then Inl (st, None, t3)
                   else Inr (new_id,
                             t3\<lparr>dir_inodes :=
                                  AList.update new_id dir
                                    (dir_modify (dir_inodes t3) current (set_child part new_id))\<rparr>)))"

fun CreateDirectory_loop ::
  "InodeTree \<Rightarrow> string \<Rightarrow> 32 word \<Rightarrow> bool \<Rightarrow> 64 word \<Rightarrow> InodeId \<Rightarrow> string list \<Rightarrow>
   Status \<times> InodeId option \<times> InodeTree" where
  "CreateDirectory_loop t path md recursive now current [] = (OK, Some current, t)"
| "CreateDirectory_loop t path md recursive now current (part # rest) =
     (case CreateDirectory_step t path md recursive now current part (rest = []) of
        Inl r \<Rightarrow> r
      | Inr (c, t') \<Rightarrow> CreateDirectory_loop t' path md recursive now c rest)"

definition CreateDirectory ::
  "InodeTree \<Rightarrow> string \<Rightarrow> 32 word \<Rightarrow> bool \<Rightarrow> 64 word \<Rightarrow> Status \<times> InodeId option \<times> InodeTree" where
  "CreateDirectory t path md recursive now =
     (let parts = SplitPath path in
      if parts = [] then (OK, Some (root_id t), t)
      else CreateDirectory_loop t path md recursive now (root_id t) parts)"


definition UpdateSize :: "InodeTree \<Rightarrow> InodeId \<Rightarrow> 64 word \<Rightarrow> 64 word \<Rightarrow> Status \<times> InodeTree" where
  "UpdateSize t i new_size now =
     (case store t of
        Some s \<Rightarrow>
          (case map_of (dir_inodes t) i of
             Some node \<Rightarrow>
               (let node' = node\<lparr>inode_size := new_size, modification_time_ms := now\<rparr>;
                    t1 = t\<lparr>dir_inodes := AList.update i node' (dir_inodes t)\<rparr>;
                    (batch, s1) = BatchPutInode s [] i node';
                    (st, s2) = CommitBatch s1 batch
                in (st, t1\<lparr>store := Some s2\<rparr>))
           | None \<Rightarrow>
               (case GetInode s i of
                  Inl st \<Rightarrow> (st, t)
                | Inr inode \<Rightarrow>
                    (let inode' = inode\<lparr>inode_size := new_size, modification_time_ms := now\<rparr>;
                         (batch, s1) = BatchPutInode s [] i inode';
                         (st, s2) = CommitBatch s1 batch
                     in (st, t\<lparr>store := Some s2\<rparr>))))
      | None \<Rightarrow>
          (case map_of (dir_inodes t) i of
             None \<Rightarrow> (NotFound ''inode not found'', t)
           | Some node \<Rightarrow>
               (OK, t\<lparr>dir_inodes :=
                        AList.update i (node\<lparr>inode_size := new_size,
                                          modification_time_ms := now\<rparr>) (dir_inodes t)\<rparr>)))"

text \<open>
  \<^verbatim>\<open>CollectSubtreeForDeletion\<close> and \<^verbatim>\<open>RemoveDirSubtreeFromMemory\<close> recurse through the
  children maps and do not return on a cyclic map. The first argument bounds the depth
  of the recursion; \<open>None\<close> means the bound was reached. The accumulator holds the three
  output vectors (edges, inode ids, directory ids).
\<close>

fun CollectSubtreeForDeletion ::
  "nat \<Rightarrow> (InodeId \<times> Inode) list \<Rightarrow> InodeId \<Rightarrow>
   (InodeId \<times> string) list \<times> InodeId list \<times> InodeId list \<Rightarrow>
   ((InodeId \<times> string) list \<times> InodeId list \<times> InodeId list) option"
and CollectSubtree_children ::
  "nat \<Rightarrow> (InodeId \<times> Inode) list \<Rightarrow> InodeId \<Rightarrow> (string \<times> InodeId) list \<Rightarrow>
   (InodeId \<times> string) list \<times> InodeId list \<times> InodeId list \<Rightarrow>
   ((InodeId \<times> string) list \<times> InodeId list \<times> InodeId list) option" where
  "CollectSubtreeForDeletion 0 dirs dir_id acc = None"
| "CollectSubtreeForDeletion (Suc fuel) dirs dir_id acc =
     (case map_of dirs dir_id of
        None \<Rightarrow> Some acc
      | Some node \<Rightarrow> CollectSubtree_children fuel dirs dir_id (children node) acc)"
| "CollectSubtree_children fuel dirs dir_id [] acc = Some acc"
| "CollectSubtree_children fuel dirs dir_id ((n, child) # rest) acc =
     (case acc of (edges, inode_ids, dir_ids) \<Rightarrow>
        (case (if map_of dirs child \<noteq> None
               then CollectSubtreeForDeletion fuel dirs child
                      (edges @ [(dir_id, n)], inode_ids @ [child], dir_ids @ [child])
               else Some (edges @ [(dir_id, n)], inode_ids @ [child], dir_ids)) of
           None \<Rightarrow> None
         | Some acc' \<Rightarrow> CollectSubtree_children fuel dirs dir_id rest acc'))"

fun RemoveDirSubtreeFromMemory ::
  "nat \<Rightarrow> (InodeId \<times> Inode) list \<Rightarrow> InodeId \<Rightarrow> (InodeId \<times> Inode) list option"
and RemoveDirSubtree_children ::
  "nat \<Rightarrow> (InodeId \<times> Inode) list \<Rightarrow> InodeId list \<Rightarrow> (InodeId \<times> Inode) list option" where
  "RemoveDirSubtreeFromMemory 0 dirs i = None"
| "RemoveDirSubtreeFromMemory (Suc fuel) dirs i =
     (case map_of dirs i of
        None \<Rightarrow> Some dirs
      | Some node \<Rightarrow>
          (case RemoveDirSubtree_children fuel dirs (map snd (children node)) of
             None \<Rightarrow> None
           | Some dirs' \<Rightarrow> Some (fold AList.delete (map snd (children node)) dirs')))"
| "RemoveDirSubtree_children fuel dirs [] = Some dirs"
| "RemoveDirSubtree_children fuel dirs (c # cs) =
     (case RemoveDirSubtreeFromMemory fuel dirs c of
        None \<Rightarrow> None
      | Some dirs' \<Rightarrow> RemoveDirSubtree_children fuel dirs' cs)"




text \<open>
  A restart of the master on the database \<open>d\<close> (\<^verbatim>\<open>FileSystemMaster::Init\<close>): a new tree,
  the store opened on \<open>d\<close> and injected, then \<^verbatim>\<open>Recover\<close>.
\<close>

definition Restart :: "RocksDB \<Rightarrow> 64 word \<Rightarrow> Status \<times> InodeTree" where
  "Restart d now = Recover (SetStore (InodeTree_new now) (Open d)) now"

text \<open>
  States used to run the operations: the tree after a first start on an empty
  database whose coming writes have the outcomes \<open>errs\<close>, that tree after
  \<^verbatim>\<open>CreateFile("/f")\<close>, and the tree after \<^verbatim>\<open>CreateFile("/a")\<close> on a database whose
  second write fails.
\<close>

definition tree_after_start :: "string option list \<Rightarrow> InodeTree" where
  "tree_after_start errs = snd (Restart (RocksDB_empty\<lparr>write_errors := errs\<rparr>) 1)"

definition tree_with_file :: "string option list \<Rightarrow> InodeTree" where
  "tree_with_file errs = snd (snd (CreateFile (tree_after_start errs) ''/f'' 420 2))"

definition tree_with_a :: InodeTree where
  "tree_with_a = snd (snd (CreateFile (tree_after_start [None, Some ''IO error'']) ''/a'' 420 2))"

text \<open>The database of a two-tier tree.\<close>

definition tree_db :: "InodeTree \<Rightarrow> RocksDB" where
  "tree_db t = (case store t of Some s \<Rightarrow> db s | None \<Rightarrow> RocksDB_empty)"

text \<open>
  Runs of the allocator. \<open>EvAllocate\<close> is one call of \<^verbatim>\<open>AllocateId\<close>, as \<^verbatim>\<open>CreateFile\<close>
  and \<^verbatim>\<open>CreateDirectory\<close> make it; \<open>EvRestart now\<close> is a restart of the master on the
  database as it is at that moment: everything in memory is lost. \<open>issued_ids\<close> lists the
  ids that the calls of \<^verbatim>\<open>AllocateId\<close> return, \<open>cursor_trace\<close> the persisted cursor after
  each event (0 when the key is absent or unreadable), and \<open>no_wrap\<close> says that no call of
  \<^verbatim>\<open>AllocateId\<close> in the run starts within 1000 of the end of the 64-bit range.
\<close>

datatype AllocEvent = EvAllocate | EvRestart "64 word"

definition restart_tree :: "InodeTree \<Rightarrow> 64 word \<Rightarrow> InodeTree" where
  "restart_tree t now =
     (case store t of Some s \<Rightarrow> snd (Restart (db s) now) | None \<Rightarrow> InodeTree_new now)"

fun alloc_step :: "InodeTree \<Rightarrow> AllocEvent \<Rightarrow> InodeId option \<times> InodeTree" where
  "alloc_step t EvAllocate = (case AllocateId t of (i, t') \<Rightarrow> (Some i, t'))"
| "alloc_step t (EvRestart now) = (None, restart_tree t now)"

fun issued_ids :: "InodeTree \<Rightarrow> AllocEvent list \<Rightarrow> InodeId list" where
  "issued_ids t [] = []"
| "issued_ids t (ev # evs) =
     (case fst (alloc_step t ev) of Some i \<Rightarrow> [i] | None \<Rightarrow> []) @
     issued_ids (snd (alloc_step t ev)) evs"

definition persisted_cursor :: "InodeTree \<Rightarrow> InodeId" where
  "persisted_cursor t =
     (case store t of
        None \<Rightarrow> 0
      | Some s \<Rightarrow> (case GetNextId s of Inr c \<Rightarrow> c | Inl _ \<Rightarrow> 0))"

fun cursor_trace :: "InodeTree \<Rightarrow> AllocEvent list \<Rightarrow> InodeId list" where
  "cursor_trace t [] = []"
| "cursor_trace t (ev # evs) =
     persisted_cursor (snd (alloc_step t ev)) # cursor_trace (snd (alloc_step t ev)) evs"

fun no_wrap :: "InodeTree \<Rightarrow> AllocEvent list \<Rightarrow> bool" where
  "no_wrap t [] = True"
| "no_wrap t (EvAllocate # evs) =
     (next_id t < 0xFFFFFFFFFFFFFC18 \<and> no_wrap (snd (alloc_step t EvAllocate)) evs)"
| "no_wrap t (EvRestart now # evs) = no_wrap (snd (alloc_step t (EvRestart now))) evs"

text \<open>
  The allocator's invariant in two-tier mode while writes and the reads of the cursor
  succeed. \<open>issued\<close> says that
  \<^verbatim>\<open>AllocateId\<close> has returned an id since the database was created.
\<close>

definition alloc_inv :: "bool \<Rightarrow> InodeTree \<Rightarrow> bool" where
  "alloc_inv issued t =
     (case store t of
        None \<Rightarrow> False
      | Some s \<Rightarrow>
          write_errors (db s) = [] \<and> next_id_read_error (db s) = None \<and>
          next_id t \<le> alloc_end t \<and> persisted_cursor t \<le> alloc_end t \<and>
          (issued \<or> next_id t < alloc_end t \<longrightarrow>
             GetNextId s = Inr (alloc_end t) \<and> 0 < alloc_end t))"

text \<open>
  The outcomes of the writes still to come on the database of a tree. A write that
  fails takes the first entry \<open>Some msg\<close> off this list, so an operation's commit has
  failed with \<open>msg\<close> exactly when the list was \<open>Some msg # rest\<close> at the commit and is
  \<open>rest\<close> when the operation returns.
\<close>

definition pending_writes :: "InodeTree \<Rightarrow> string option list" where
  "pending_writes t = (case store t of None \<Rightarrow> [] | Some s \<Rightarrow> write_errors (db s))"

text \<open>
  The directory map has no cycle when a rank on the ids decreases from every directory
  to each child that is a directory; \<^verbatim>\<open>CollectSubtreeForDeletion\<close> and
  \<^verbatim>\<open>RemoveDirSubtreeFromMemory\<close> then return.
\<close>

definition dirs_ranked :: "(InodeId \<Rightarrow> nat) \<Rightarrow> (InodeId \<times> Inode) list \<Rightarrow> bool" where
  "dirs_ranked rank dirs =
     (\<forall>i node. map_of dirs i = Some node \<longrightarrow>
        (\<forall>c \<in> snd ` set (children node). map_of dirs c \<noteq> None \<longrightarrow> rank c < rank i))"

section \<open>The worker registry (master/worker_manager.cpp)\<close>

record WorkerState =
  worker_id :: WorkerId
  address :: string
  capacity_bytes :: "64 word"
  used_bytes :: "64 word"
  last_heartbeat_ms :: "64 word"
  alive :: bool

text \<open>
  \<open>workers\<close> lists the \<^verbatim>\<open>unordered_map\<close> in the order in which the loops visit it; that
  order is not fixed by the language.
\<close>

record WorkerManager =
  workers :: "(WorkerId \<times> WorkerState) list"
  wm_next_id :: WorkerId

definition WorkerManager_new :: WorkerManager where
  "WorkerManager_new = \<lparr> workers = [], wm_next_id = 1 \<rparr>"

definition RegisterWorker ::
  "WorkerManager \<Rightarrow> string \<Rightarrow> 64 word \<Rightarrow> 64 word \<Rightarrow> 64 word \<Rightarrow> WorkerId \<times> WorkerManager" where
  "RegisterWorker wm addr capacity used now =
     (case find (\<lambda>(i, w). address w = addr) (workers wm) of
        Some (i, w) \<Rightarrow>
          (i, wm\<lparr>workers := AList.update i
                     (w\<lparr>capacity_bytes := capacity, used_bytes := used,
                        last_heartbeat_ms := now, alive := True\<rparr>) (workers wm)\<rparr>)
      | None \<Rightarrow>
          (let i = wm_next_id wm;
               ws = \<lparr> worker_id = i, address = addr, capacity_bytes = capacity,
                      used_bytes = used, last_heartbeat_ms = now, alive = True \<rparr>
           in (i, wm\<lparr>workers := AList.update i ws (workers wm),
                      wm_next_id := wm_next_id wm + 1\<rparr>)))"

definition Heartbeat ::
  "WorkerManager \<Rightarrow> WorkerId \<Rightarrow> 64 word \<Rightarrow> 64 word \<Rightarrow> 64 word \<Rightarrow> Status \<times> WorkerManager" where
  "Heartbeat wm i capacity used now =
     (case map_of (workers wm) i of
        None \<Rightarrow> (NotFound ''worker not registered'', wm)
      | Some w \<Rightarrow>
          (OK, wm\<lparr>workers := AList.update i
                      (w\<lparr>capacity_bytes := capacity, used_bytes := used,
                         last_heartbeat_ms := now, alive := True\<rparr>) (workers wm)\<rparr>))"

text \<open>The loop of \<^verbatim>\<open>SelectWorkerForWrite\<close>; the pair is (\<^verbatim>\<open>best_id\<close>, \<^verbatim>\<open>best_avail\<close>).\<close>

fun select_loop :: "(WorkerId \<times> WorkerState) list \<Rightarrow> WorkerId \<times> 64 word \<Rightarrow> WorkerId \<times> 64 word" where
  "select_loop [] best = best"
| "select_loop ((i, w) # rest) (best_id, best_avail) =
     (if \<not> alive w then select_loop rest (best_id, best_avail)
      else if best_avail < capacity_bytes w - used_bytes w
      then select_loop rest (i, capacity_bytes w - used_bytes w)
      else select_loop rest (best_id, best_avail))"

definition SelectWorkerForWrite :: "WorkerManager \<Rightarrow> Status + WorkerId" where
  "SelectWorkerForWrite wm =
     (let best_id = fst (select_loop (workers wm) (kInvalidWorkerId, 0))
      in if best_id = kInvalidWorkerId then Inl (Unavailable ''no workers available'')
         else Inr best_id)"

section \<open>The master coordinator (master/file_system_master.cpp)\<close>

record FileSystemMaster =
  inode_tree :: InodeTree
  worker_mgr :: WorkerManager


definition Mkdir ::
  "FileSystemMaster \<Rightarrow> string \<Rightarrow> 32 word \<Rightarrow> bool \<Rightarrow> 64 word \<Rightarrow> Status \<times> FileSystemMaster" where
  "Mkdir m path md recursive now =
     (case CreateDirectory (inode_tree m) path md recursive now of
        (st, out_id, t) \<Rightarrow>
          (if IsAlreadyExists st then OK else st, m\<lparr>inode_tree := t\<rparr>))"

section \<open>Storage tiers (worker/storage_tier.cpp)\<close>

datatype TierType = kMemory | kSSD | kHDD

text \<open>The enum value of a tier type: a lower value is a faster tier.\<close>

fun tier_rank :: "TierType \<Rightarrow> nat" where
  "tier_rank kMemory = 0"
| "tier_rank kSSD = 1"
| "tier_rank kHDD = 2"

record BlockHandle =
  handle_block_id :: BlockId
  handle_tier :: TierType
  handle_capacity :: "64 word"

text \<open>
  A tier: its type, its capacity, the bytes in use and the table \<^verbatim>\<open>blocks_\<close>.  The
  bytes of a block are not part of the model, and \<^verbatim>\<open>malloc\<close> and the file system calls
  of the disk tiers are taken to succeed.
\<close>

record StorageTier =
  tier_type :: TierType
  tier_capacity :: "64 word"
  tier_used_bytes :: "64 word"
  blocks :: "(BlockId \<times> BlockHandle) list"

definition StorageTier_new :: "TierType \<Rightarrow> 64 word \<Rightarrow> StorageTier" where
  "StorageTier_new ty cap =
     \<lparr>tier_type = ty, tier_capacity = cap, tier_used_bytes = 0, blocks = []\<rparr>"

definition GetAvailableBytes :: "StorageTier \<Rightarrow> 64 word" where
  "GetAvailableBytes t = tier_capacity t - tier_used_bytes t"

definition Tier_HasBlock :: "StorageTier \<Rightarrow> BlockId \<Rightarrow> bool" where
  "Tier_HasBlock t bid = (map_of (blocks t) bid \<noteq> None)"

definition Tier_AllocateBlock :: "StorageTier \<Rightarrow> BlockId \<Rightarrow> 64 word \<Rightarrow> Status \<times> StorageTier" where
  "Tier_AllocateBlock t bid sz =
     (if map_of (blocks t) bid \<noteq> None then
        (AlreadyExists ''block already allocated in tier'', t)
      else if tier_used_bytes t + sz > tier_capacity t then
        (ResourceExhausted ''tier capacity exceeded'', t)
      else
        (OK, t\<lparr>blocks := AList.update bid
                   \<lparr>handle_block_id = bid, handle_tier = tier_type t, handle_capacity = sz\<rparr>
                   (blocks t),
               tier_used_bytes := tier_used_bytes t + sz\<rparr>))"

text \<open>
  \<^verbatim>\<open>ReadMem\<close> clamps the size to the block and \<^verbatim>\<open>ReadDisk\<close> reads what the file
  has; both fail only for a block that is not in the table.
\<close>

definition Tier_ReadBlock :: "StorageTier \<Rightarrow> BlockId \<Rightarrow> 64 word \<Rightarrow> 64 word \<Rightarrow> Status" where
  "Tier_ReadBlock t bid sz offset =
     (if map_of (blocks t) bid = None then NotFound ''block not found'' else OK)"

definition Tier_WriteBlock :: "StorageTier \<Rightarrow> BlockId \<Rightarrow> 64 word \<Rightarrow> 64 word \<Rightarrow> Status" where
  "Tier_WriteBlock t bid sz offset =
     (case map_of (blocks t) bid of
        None \<Rightarrow> NotFound ''block not found''
      | Some h \<Rightarrow>
          if tier_type t = kMemory \<and> offset + sz > handle_capacity h then
            InvalidArgument ''write exceeds block capacity''
          else OK)"

definition Tier_RemoveBlock :: "StorageTier \<Rightarrow> BlockId \<Rightarrow> Status \<times> StorageTier" where
  "Tier_RemoveBlock t bid =
     (case map_of (blocks t) bid of
        None \<Rightarrow> (NotFound ''block not found'', t)
      | Some h \<Rightarrow>
          (OK, t\<lparr>tier_used_bytes := tier_used_bytes t - handle_capacity h,
                 blocks := AList.delete bid (blocks t)\<rparr>))"

text \<open>\<^verbatim>\<open>ExportBlock\<close> yields the bytes of the block; the model keeps their number.\<close>

definition Tier_ExportBlock :: "StorageTier \<Rightarrow> BlockId \<Rightarrow> Status \<times> 64 word" where
  "Tier_ExportBlock t bid =
     (case map_of (blocks t) bid of
        None \<Rightarrow> (NotFound ''block not in tier'', 0)
      | Some h \<Rightarrow> (OK, handle_capacity h))"

definition Tier_ImportBlock :: "StorageTier \<Rightarrow> BlockId \<Rightarrow> 64 word \<Rightarrow> Status \<times> StorageTier" where
  "Tier_ImportBlock t bid data_size =
     (case Tier_AllocateBlock t bid data_size of
        (st, t') \<Rightarrow>
          if \<not> ok st then (st, t')
          else (Tier_WriteBlock t' bid data_size 0, t'))"

section \<open>Eviction policies (worker/cache_manager.cpp)\<close>

text \<open>
  \<^verbatim>\<open>LRUPolicy\<close>: the list \<^verbatim>\<open>order_\<close>, front = victim.  \<^verbatim>\<open>map_\<close> indexes the list by
  block id and holds exactly the ids of the list, so that \<^verbatim>\<open>map_.find(id)\<close> is
  membership in the list and \<^verbatim>\<open>map_.size()\<close> its length.
\<close>

type_synonym LRUPolicy = "BlockId list"

definition LRU_OnAccess :: "BlockId \<Rightarrow> LRUPolicy \<Rightarrow> LRUPolicy" where
  "LRU_OnAccess bid order = (if bid \<in> set order then remove1 bid order @ [bid] else order)"

definition LRU_OnInsert :: "BlockId \<Rightarrow> LRUPolicy \<Rightarrow> LRUPolicy" where
  "LRU_OnInsert bid order = (if bid \<in> set order then remove1 bid order else order) @ [bid]"

definition LRU_OnRemove :: "BlockId \<Rightarrow> LRUPolicy \<Rightarrow> LRUPolicy" where
  "LRU_OnRemove bid order = (if bid \<in> set order then remove1 bid order else order)"

fun LRU_Evict :: "LRUPolicy \<Rightarrow> BlockId \<times> LRUPolicy" where
  "LRU_Evict [] = (kInvalidBlockId, [])"
| "LRU_Evict (victim # order) = (victim, order)"

definition LRU_Size :: "LRUPolicy \<Rightarrow> nat" where
  "LRU_Size order = length order"

text \<open>\<^verbatim>\<open>LFUPolicy\<close>: the two hash maps and the frequency cursor.\<close>

record LFUPolicy =
  freq_map :: "(BlockId \<times> 64 word) list"
  freq_lists :: "(64 word \<times> BlockId list) list"
  min_freq :: "64 word"

definition LFUPolicy_new :: LFUPolicy where
  "LFUPolicy_new = \<lparr>freq_map = [], freq_lists = [], min_freq = 0\<rparr>"

text \<open>\<^verbatim>\<open>freq_lists_[f]\<close>, which reads an absent list as the empty one.\<close>

definition freq_list :: "(64 word \<times> BlockId list) list \<Rightarrow> 64 word \<Rightarrow> BlockId list" where
  "freq_list fl f = (case map_of fl f of None \<Rightarrow> [] | Some l \<Rightarrow> l)"

definition LFU_OnAccess :: "BlockId \<Rightarrow> LFUPolicy \<Rightarrow> LFUPolicy" where
  "LFU_OnAccess bid p =
     (case map_of (freq_map p) bid of
        None \<Rightarrow> p
      | Some old_freq \<Rightarrow>
          let new_freq = old_freq + 1;
              old_list = removeAll bid (freq_list (freq_lists p) old_freq);
              fl1 = (if old_list = [] then AList.delete old_freq (freq_lists p)
                     else AList.update old_freq old_list (freq_lists p));
              mf = (if old_list = [] \<and> min_freq p = old_freq then new_freq else min_freq p)
          in \<lparr>freq_map = AList.update bid new_freq (freq_map p),
              freq_lists = AList.update new_freq (freq_list fl1 new_freq @ [bid]) fl1,
              min_freq = mf\<rparr>)"

definition LFU_OnInsert :: "BlockId \<Rightarrow> LFUPolicy \<Rightarrow> LFUPolicy" where
  "LFU_OnInsert bid p =
     (if map_of (freq_map p) bid \<noteq> None then LFU_OnAccess bid p
      else \<lparr>freq_map = AList.update bid 1 (freq_map p),
            freq_lists = AList.update 1 (freq_list (freq_lists p) 1 @ [bid]) (freq_lists p),
            min_freq = 1\<rparr>)"

definition LFU_OnRemove :: "BlockId \<Rightarrow> LFUPolicy \<Rightarrow> LFUPolicy" where
  "LFU_OnRemove bid p =
     (case map_of (freq_map p) bid of
        None \<Rightarrow> p
      | Some freq \<Rightarrow>
          let lst = removeAll bid (freq_list (freq_lists p) freq)
          in p\<lparr>freq_lists := (if lst = [] then AList.delete freq (freq_lists p)
                               else AList.update freq lst (freq_lists p)),
                freq_map := AList.delete bid (freq_map p)\<rparr>)"

text \<open>
  The loop of \<^verbatim>\<open>Evict\<close> that advances \<^verbatim>\<open>min_freq_\<close> to a frequency with a
  non-empty list.  Nothing bounds it: with every list empty it never ends, and the
  result is \<^const>\<open>None\<close>.  The test of \<^verbatim>\<open>freq_map_.empty()\<close> inside the loop repeats
  the one before it on an unchanged map and never fires.
\<close>

partial_function (option) LFU_seek :: "(64 word \<times> BlockId list) list \<Rightarrow> 64 word \<Rightarrow> 64 word option" where
  "LFU_seek fl m = (if freq_list fl m = [] then LFU_seek fl (m + 1) else Some m)"

definition LFU_Evict :: "LFUPolicy \<Rightarrow> (BlockId \<times> LFUPolicy) option" where
  "LFU_Evict p =
     (if freq_map p = [] then Some (kInvalidBlockId, p)
      else case LFU_seek (freq_lists p) (min_freq p) of
        None \<Rightarrow> None
      | Some m \<Rightarrow>
          let lst = freq_list (freq_lists p) m;
              victim = hd lst
          in Some (victim,
                   \<lparr>freq_map = AList.delete victim (freq_map p),
                    freq_lists = (if tl lst = [] then AList.delete m (freq_lists p)
                                  else AList.update m (tl lst) (freq_lists p)),
                    min_freq = m\<rparr>))"

definition LFU_Size :: "LFUPolicy \<Rightarrow> nat" where
  "LFU_Size p = length (freq_map p)"

text \<open>The pluggable policy of the cache manager.\<close>

datatype CachePolicy = LRU LRUPolicy | LFU LFUPolicy

fun OnAccess :: "BlockId \<Rightarrow> CachePolicy \<Rightarrow> CachePolicy" where
  "OnAccess bid (LRU p) = LRU (LRU_OnAccess bid p)"
| "OnAccess bid (LFU p) = LFU (LFU_OnAccess bid p)"

fun OnInsert :: "BlockId \<Rightarrow> CachePolicy \<Rightarrow> CachePolicy" where
  "OnInsert bid (LRU p) = LRU (LRU_OnInsert bid p)"
| "OnInsert bid (LFU p) = LFU (LFU_OnInsert bid p)"

fun OnRemove :: "BlockId \<Rightarrow> CachePolicy \<Rightarrow> CachePolicy" where
  "OnRemove bid (LRU p) = LRU (LRU_OnRemove bid p)"
| "OnRemove bid (LFU p) = LFU (LFU_OnRemove bid p)"

fun Evict :: "CachePolicy \<Rightarrow> (BlockId \<times> CachePolicy) option" where
  "Evict (LRU p) = Some (fst (LRU_Evict p), LRU (snd (LRU_Evict p)))"
| "Evict (LFU p) = map_option (\<lambda>(victim, p'). (victim, LFU p')) (LFU_Evict p)"

fun Size :: "CachePolicy \<Rightarrow> nat" where
  "Size (LRU p) = LRU_Size p"
| "Size (LFU p) = LFU_Size p"

section \<open>The cache manager (worker/cache_manager.cpp)\<close>

datatype PolicyType = kLRU | kLFU

record CacheManager =
  policy :: CachePolicy
  block_sizes :: "(BlockId \<times> 64 word) list"
  total_cached_bytes :: "64 word"

fun CacheManager_new :: "PolicyType \<Rightarrow> CacheManager" where
  "CacheManager_new kLRU = \<lparr>policy = LRU [], block_sizes = [], total_cached_bytes = 0\<rparr>"
| "CacheManager_new kLFU =
     \<lparr>policy = LFU LFUPolicy_new, block_sizes = [], total_cached_bytes = 0\<rparr>"

definition OnBlockAccess :: "BlockId \<Rightarrow> CacheManager \<Rightarrow> CacheManager" where
  "OnBlockAccess bid cm = cm\<lparr>policy := OnAccess bid (policy cm)\<rparr>"

definition OnBlockInsert :: "BlockId \<Rightarrow> 64 word \<Rightarrow> CacheManager \<Rightarrow> CacheManager" where
  "OnBlockInsert bid sz cm =
     cm\<lparr>policy := OnInsert bid (policy cm),
        block_sizes := AList.update bid sz (block_sizes cm),
        total_cached_bytes := total_cached_bytes cm + sz\<rparr>"

definition OnBlockRemove :: "BlockId \<Rightarrow> CacheManager \<Rightarrow> CacheManager" where
  "OnBlockRemove bid cm =
     (case map_of (block_sizes cm) bid of
        None \<Rightarrow> cm\<lparr>policy := OnRemove bid (policy cm)\<rparr>
      | Some sz \<Rightarrow>
          cm\<lparr>policy := OnRemove bid (policy cm),
             total_cached_bytes := total_cached_bytes cm - sz,
             block_sizes := AList.delete bid (block_sizes cm)\<rparr>)"

text \<open>
  What one pass of the loop of \<^verbatim>\<open>GetEvictionCandidates\<close> does with a victim that
  is not \<^verbatim>\<open>kInvalidBlockId\<close>: the new manager and the new value of \<^verbatim>\<open>freed\<close>.
\<close>

definition take_victim :: "BlockId \<Rightarrow> CachePolicy \<Rightarrow> CacheManager \<Rightarrow> 64 word \<Rightarrow> CacheManager \<times> 64 word" where
  "take_victim victim p' cm freed =
     (case map_of (block_sizes cm) victim of
        None \<Rightarrow> (cm\<lparr>policy := p'\<rparr>, freed)
      | Some sz \<Rightarrow>
          (cm\<lparr>policy := p',
              total_cached_bytes := total_cached_bytes cm - sz,
              block_sizes := AList.delete victim (block_sizes cm)\<rparr>,
           freed + sz))"

partial_function (option) GetEvictionCandidates_loop ::
  "CacheManager \<Rightarrow> 64 word \<Rightarrow> 64 word \<Rightarrow> BlockId list \<Rightarrow> (BlockId list \<times> CacheManager) option" where
  "GetEvictionCandidates_loop cm bytes_needed freed victims =
     (if freed < bytes_needed \<and> 0 < Size (policy cm) then
        (case Evict (policy cm) of
           None \<Rightarrow> None
         | Some r \<Rightarrow>
             if fst r = kInvalidBlockId then Some (victims, cm\<lparr>policy := snd r\<rparr>)
             else GetEvictionCandidates_loop
                    (fst (take_victim (fst r) (snd r) cm freed)) bytes_needed
                    (snd (take_victim (fst r) (snd r) cm freed)) (victims @ [fst r]))
      else Some (victims, cm))"

definition GetEvictionCandidates :: "CacheManager \<Rightarrow> 64 word \<Rightarrow> (BlockId list \<times> CacheManager) option" where
  "GetEvictionCandidates cm bytes_needed = GetEvictionCandidates_loop cm bytes_needed 0 []"

definition GetCachedBlockCount :: "CacheManager \<Rightarrow> nat" where
  "GetCachedBlockCount cm = length (block_sizes cm)"

definition GetCachedBytes :: "CacheManager \<Rightarrow> 64 word" where
  "GetCachedBytes cm = total_cached_bytes cm"

section \<open>Block metadata (worker/meta_store.h)\<close>

record BlockMeta =
  meta_block_id :: BlockId
  meta_length :: "64 word"
  meta_tier :: TierType
  create_time_ms :: "64 word"
  last_access_time_ms :: "64 word"
  access_count :: "64 word"

text \<open>
  The metadata store as the map from block id to record that it keeps; its writes are
  taken to succeed.
\<close>

type_synonym MetaStore = "(BlockId \<times> BlockMeta) list"

definition PutBlockMeta :: "BlockId \<Rightarrow> BlockMeta \<Rightarrow> MetaStore \<Rightarrow> MetaStore" where
  "PutBlockMeta bid meta ms = AList.update bid meta ms"

definition GetBlockMeta :: "MetaStore \<Rightarrow> BlockId \<Rightarrow> BlockMeta option" where
  "GetBlockMeta ms bid = map_of ms bid"

definition DeleteBlockMeta :: "BlockId \<Rightarrow> MetaStore \<Rightarrow> MetaStore" where
  "DeleteBlockMeta bid ms = AList.delete bid ms"

section \<open>The block store (worker/block_store.cpp)\<close>

text \<open>
  The options of the block store.  The two watermarks are doubles; the model takes
  the two computations that \<^verbatim>\<open>MaybeAutoEvict\<close> makes with them as given:
  \<open>usage_above_high used cap\<close> is the test
  \<^verbatim>\<open>(double) used / cap > auto_evict_high_watermark\<close>, and \<open>low_watermark_bytes cap\<close>
  is \<^verbatim>\<open>(size_t) (cap * auto_evict_low_watermark)\<close>.
\<close>

record Options =
  tier_configs :: "(TierType \<times> 64 word) list"
  cache_policy :: PolicyType
  auto_promote_access_threshold :: "32 word"
  usage_above_high :: "64 word \<Rightarrow> 64 word \<Rightarrow> bool"
  low_watermark_bytes :: "64 word \<Rightarrow> 64 word"

text \<open>
  The default options for a list of tiers: the LRU policy, promotion after three
  accesses, and the watermarks 0.95 and 0.80, computed here on the integers.
\<close>

definition Options_default :: "(TierType \<times> 64 word) list \<Rightarrow> Options" where
  "Options_default cfgs =
     \<lparr>tier_configs = cfgs, cache_policy = kLRU, auto_promote_access_threshold = 3,
      usage_above_high = (\<lambda>used cap. 95 * uint cap < 100 * uint used),
      low_watermark_bytes = (\<lambda>cap. word_of_int (80 * uint cap div 100))\<rparr>"

record BlockStore =
  opts :: Options
  tiers :: "StorageTier list"
  cache_mgr :: CacheManager
  meta_store :: MetaStore
  block_tier_map :: "(BlockId \<times> TierType) list"

text \<open>The constructor sorts the tiers by type: memory first, then SSD, then HDD.\<close>

definition BlockStore_new :: "Options \<Rightarrow> BlockStore" where
  "BlockStore_new os =
     \<lparr>opts = os,
      tiers = sort_key (\<lambda>t. tier_rank (tier_type t))
                (map (\<lambda>tc. StorageTier_new (fst tc) (snd tc)) (tier_configs os)),
      cache_mgr = CacheManager_new (cache_policy os),
      meta_store = [],
      block_tier_map = []\<rparr>"

text \<open>
  \<^verbatim>\<open>FindTier\<close> returns a pointer to the first tier of the given type; the model
  returns its position in \<^verbatim>\<open>tiers_\<close>.
\<close>

fun FindTier :: "StorageTier list \<Rightarrow> TierType \<Rightarrow> nat option" where
  "FindTier [] ty = None"
| "FindTier (t # ts) ty =
     (if tier_type t = ty then Some 0 else map_option Suc (FindTier ts ty))"

definition FindBlockTier :: "BlockStore \<Rightarrow> BlockId \<Rightarrow> nat option" where
  "FindBlockTier bs bid =
     (case map_of (block_tier_map bs) bid of
        None \<Rightarrow> None
      | Some ty \<Rightarrow> FindTier (tiers bs) ty)"

definition HasBlock :: "BlockStore \<Rightarrow> BlockId \<Rightarrow> bool" where
  "HasBlock bs bid = (map_of (block_tier_map bs) bid \<noteq> None)"

text \<open>The first loop of \<^verbatim>\<open>CreateBlock\<close>: the first tier with room for the block.\<close>

fun first_fit :: "StorageTier list \<Rightarrow> 64 word \<Rightarrow> nat option" where
  "first_fit [] sz = None"
| "first_fit (t # ts) sz =
     (if GetAvailableBytes t \<ge> sz then Some 0 else map_option Suc (first_fit ts sz))"

text \<open>The body of the loop of \<^verbatim>\<open>EvictBlocks\<close> for one candidate.\<close>

definition evict_candidate :: "TierType \<Rightarrow> BlockId \<Rightarrow> BlockStore \<times> BlockId list \<Rightarrow> BlockStore \<times> BlockId list" where
  "evict_candidate tier bid acc =
     (case FindBlockTier (fst acc) bid of
        None \<Rightarrow> acc
      | Some i \<Rightarrow>
          if tier_type (tiers (fst acc) ! i) = tier then
            ((fst acc)\<lparr>tiers := (tiers (fst acc))
                          [i := snd (Tier_RemoveBlock (tiers (fst acc) ! i) bid)],
                       meta_store := DeleteBlockMeta bid (meta_store (fst acc)),
                       block_tier_map := AList.delete bid (block_tier_map (fst acc))\<rparr>,
             snd acc @ [bid])
          else acc)"

definition EvictBlocks :: "BlockStore \<Rightarrow> TierType \<Rightarrow> 64 word \<Rightarrow> (Status \<times> BlockId list \<times> BlockStore) option" where
  "EvictBlocks bs tier bytes_needed =
     (case GetEvictionCandidates (cache_mgr bs) bytes_needed of
        None \<Rightarrow> None
      | Some r \<Rightarrow>
          let acc = fold (evict_candidate tier) (fst r) (bs\<lparr>cache_mgr := snd r\<rparr>, [])
          in Some (OK, snd acc, fst acc))"

definition MaybeAutoEvict :: "BlockStore \<Rightarrow> TierType \<Rightarrow> BlockStore option" where
  "MaybeAutoEvict bs tier =
     (case FindTier (tiers bs) tier of
        None \<Rightarrow> Some bs
      | Some i \<Rightarrow>
          let t = tiers bs ! i in
          if tier_capacity t = 0 then Some bs
          else if \<not> usage_above_high (opts bs) (tier_used_bytes t) (tier_capacity t) then Some bs
          else
            let target_used = low_watermark_bytes (opts bs) (tier_capacity t);
                to_free = (if tier_used_bytes t > target_used
                           then tier_used_bytes t - target_used else 0)
            in if to_free = 0 then Some bs
               else map_option (\<lambda>r. snd (snd r)) (EvictBlocks bs tier to_free))"

text \<open>
  \<^verbatim>\<open>CreateBlock\<close> from the allocation on: \<open>i\<close> is the position of the target tier,
  \<open>now\<close> the clock.
\<close>

definition CreateBlock_at :: "BlockStore \<Rightarrow> nat \<Rightarrow> BlockId \<Rightarrow> 64 word \<Rightarrow> 64 word \<Rightarrow> (Status \<times> BlockStore) option" where
  "CreateBlock_at bs i block_id sz now =
     (let r = Tier_AllocateBlock (tiers bs ! i) block_id sz in
      if \<not> ok (fst r) then Some (fst r, bs)
      else
        let ty = tier_type (snd r);
            meta = \<lparr>meta_block_id = block_id, meta_length = sz, meta_tier = ty,
                    create_time_ms = now, last_access_time_ms = now, access_count = 0\<rparr>;
            bs1 = bs\<lparr>tiers := (tiers bs)[i := snd r],
                     meta_store := PutBlockMeta block_id meta (meta_store bs),
                     block_tier_map := AList.update block_id ty (block_tier_map bs),
                     cache_mgr := OnBlockInsert block_id sz (cache_mgr bs)\<rparr>
        in map_option (\<lambda>bs2. (OK, bs2)) (MaybeAutoEvict bs1 ty))"

text \<open>
  \<^verbatim>\<open>CreateBlock\<close>.  With no tier configured \<^verbatim>\<open>tiers_.front()\<close> is undefined, and
  the model has no result.
\<close>

definition CreateBlock :: "BlockStore \<Rightarrow> BlockId \<Rightarrow> 64 word \<Rightarrow> 64 word \<Rightarrow> (Status \<times> BlockStore) option" where
  "CreateBlock bs block_id sz now =
     (case first_fit (tiers bs) sz of
        Some i \<Rightarrow> CreateBlock_at bs i block_id sz now
      | None \<Rightarrow>
          if tiers bs = [] then None
          else case EvictBlocks bs (tier_type (hd (tiers bs))) sz of
            None \<Rightarrow> None
          | Some r \<Rightarrow>
              if \<not> ok (fst r) then Some (fst r, snd (snd r))
              else if GetAvailableBytes (hd (tiers (snd (snd r)))) < sz then
                Some (ResourceExhausted ''no tier has enough space'', snd (snd r))
              else CreateBlock_at (snd (snd r)) 0 block_id sz now)"

definition EnsureBlock :: "BlockStore \<Rightarrow> BlockId \<Rightarrow> 64 word \<Rightarrow> 64 word \<Rightarrow> (Status \<times> BlockStore) option" where
  "EnsureBlock bs block_id sz now =
     (if HasBlock bs block_id then Some (OK, bs) else CreateBlock bs block_id sz now)"

definition PromoteBlock :: "BlockStore \<Rightarrow> BlockId \<Rightarrow> TierType \<Rightarrow> Status \<times> BlockStore" where
  "PromoteBlock bs bid target_type =
     (case FindBlockTier bs bid of
        None \<Rightarrow> (NotFound ''block not found'', bs)
      | Some s \<Rightarrow>
          if tier_type (tiers bs ! s) = target_type then (OK, bs)
          else case FindTier (tiers bs) target_type of
            None \<Rightarrow> (NotFound ''target tier not found'', bs)
          | Some d \<Rightarrow>
              let ex = Tier_ExportBlock (tiers bs ! s) bid in
              if \<not> ok (fst ex) then (fst ex, bs)
              else
                let im = Tier_ImportBlock (tiers bs ! d) bid (snd ex);
                    ts1 = (tiers bs)[d := snd im]
                in if \<not> ok (fst im) then (fst im, bs\<lparr>tiers := ts1\<rparr>)
                   else
                     (OK, bs\<lparr>tiers := ts1[s := snd (Tier_RemoveBlock (ts1 ! s) bid)],
                             meta_store :=
                               (case GetBlockMeta (meta_store bs) bid of
                                  None \<Rightarrow> meta_store bs
                                | Some meta \<Rightarrow>
                                    PutBlockMeta bid (meta\<lparr>meta_tier := target_type\<rparr>)
                                      (meta_store bs)),
                             block_tier_map := AList.update bid target_type (block_tier_map bs)\<rparr>))"

text \<open>The next faster tier type, if there is one.\<close>

fun next_faster :: "TierType \<Rightarrow> TierType option" where
  "next_faster kHDD = Some kSSD"
| "next_faster kSSD = Some kMemory"
| "next_faster kMemory = None"

definition MaybeAutoPromote :: "BlockStore \<Rightarrow> BlockId \<Rightarrow> BlockMeta \<Rightarrow> BlockStore" where
  "MaybeAutoPromote bs bid meta =
     (if auto_promote_access_threshold (opts bs) = 0 then bs
      else if access_count meta < ucast (auto_promote_access_threshold (opts bs)) then bs
      else case map_of (block_tier_map bs) bid of
        None \<Rightarrow> bs
      | Some current_tier \<Rightarrow>
          (case next_faster current_tier of
             None \<Rightarrow> bs
           | Some target \<Rightarrow>
               (case FindTier (tiers bs) target of
                  None \<Rightarrow> bs
                | Some d \<Rightarrow>
                    if GetAvailableBytes (tiers bs ! d) < meta_length meta then bs
                    else snd (PromoteBlock bs bid target))))"

definition ReadBlock :: "BlockStore \<Rightarrow> BlockId \<Rightarrow> 64 word \<Rightarrow> 64 word \<Rightarrow> 64 word \<Rightarrow> Status \<times> BlockStore" where
  "ReadBlock bs bid sz offset now =
     (case FindBlockTier bs bid of
        None \<Rightarrow> (NotFound ''block not cached'', bs)
      | Some i \<Rightarrow>
          let st = Tier_ReadBlock (tiers bs ! i) bid sz offset in
          if \<not> ok st then (st, bs)
          else
            let bs1 = bs\<lparr>cache_mgr := OnBlockAccess bid (cache_mgr bs)\<rparr> in
            (OK, case GetBlockMeta (meta_store bs1) bid of
                   None \<Rightarrow> bs1
                 | Some meta \<Rightarrow>
                     let meta' = meta\<lparr>last_access_time_ms := now,
                                      access_count := access_count meta + 1\<rparr>
                     in MaybeAutoPromote
                          (bs1\<lparr>meta_store := PutBlockMeta bid meta' (meta_store bs1)\<rparr>)
                          bid meta'))"

definition WriteBlock :: "BlockStore \<Rightarrow> BlockId \<Rightarrow> 64 word \<Rightarrow> 64 word \<Rightarrow> Status \<times> BlockStore" where
  "WriteBlock bs bid sz offset =
     (case FindBlockTier bs bid of
        None \<Rightarrow> (NotFound ''block not cached'', bs)
      | Some i \<Rightarrow>
          let st = Tier_WriteBlock (tiers bs ! i) bid sz offset in
          if \<not> ok st then (st, bs)
          else (OK, bs\<lparr>cache_mgr := OnBlockAccess bid (cache_mgr bs)\<rparr>))"

definition RemoveBlock :: "BlockStore \<Rightarrow> BlockId \<Rightarrow> Status \<times> BlockStore" where
  "RemoveBlock bs bid =
     (let ts = (case FindBlockTier bs bid of
                  None \<Rightarrow> tiers bs
                | Some i \<Rightarrow> (tiers bs)[i := snd (Tier_RemoveBlock (tiers bs ! i) bid)])
      in (OK, bs\<lparr>tiers := ts,
                 cache_mgr := OnBlockRemove bid (cache_mgr bs),
                 meta_store := DeleteBlockMeta bid (meta_store bs),
                 block_tier_map := AList.delete bid (block_tier_map bs)\<rparr>))"

text \<open>Calls on the block store, and a run of them; a call that does not return ends the run.\<close>

datatype BlockOp =
    OpCreate BlockId "64 word" "64 word"
  | OpRead BlockId "64 word" "64 word" "64 word"
  | OpWrite BlockId "64 word" "64 word"
  | OpRemove BlockId
  | OpPromote BlockId TierType
  | OpEvict TierType "64 word"

fun block_step :: "BlockStore \<Rightarrow> BlockOp \<Rightarrow> BlockStore option" where
  "block_step bs (OpCreate bid sz now) = map_option snd (CreateBlock bs bid sz now)"
| "block_step bs (OpRead bid sz offset now) = Some (snd (ReadBlock bs bid sz offset now))"
| "block_step bs (OpWrite bid sz offset) = Some (snd (WriteBlock bs bid sz offset))"
| "block_step bs (OpRemove bid) = Some (snd (RemoveBlock bs bid))"
| "block_step bs (OpPromote bid ty) = Some (snd (PromoteBlock bs bid ty))"
| "block_step bs (OpEvict ty n) = map_option (\<lambda>r. snd (snd r)) (EvictBlocks bs ty n)"

text \<open>The states after each call of a run.\<close>

fun run_ops :: "BlockStore \<Rightarrow> BlockOp list \<Rightarrow> BlockStore list option" where
  "run_ops bs [] = Some []"
| "run_ops bs (op # ops) =
     (case block_step bs op of
        None \<Rightarrow> None
      | Some bs' \<Rightarrow> map_option ((#) bs') (run_ops bs' ops))"

text \<open>
  The moves of a block along a list of states: the pairs (from, to) of the steps at
  which the block is mapped before and after, to different tiers.
\<close>

fun tier_moves :: "BlockId \<Rightarrow> BlockStore list \<Rightarrow> (TierType \<times> TierType) list" where
  "tier_moves bid (a # b # rest) =
     (case (map_of (block_tier_map a) bid, map_of (block_tier_map b) bid) of
        (Some x, Some y) \<Rightarrow> if x \<noteq> y then [(x, y)] else []
      | _ \<Rightarrow> []) @ tier_moves bid (b # rest)"
| "tier_moves bid _ = []"

definition is_read_or_write :: "BlockOp \<Rightarrow> bool" where
  "is_read_or_write op = (case op of OpRead _ _ _ _ \<Rightarrow> True | OpWrite _ _ _ \<Rightarrow> True | _ \<Rightarrow> False)"

text \<open>The recursion equations of the two loops, for evaluation.\<close>

declare LFU_seek.simps [code]

declare GetEvictionCandidates_loop.simps [code]

text \<open>
  The cache manager of the LRU seed test: blocks 1, 2 and 3 inserted with the given
  sizes, then block 1 accessed.
\<close>

definition lru_seed :: "64 word \<Rightarrow> 64 word \<Rightarrow> 64 word \<Rightarrow> CacheManager" where
  "lru_seed s1 s2 s3 =
     OnBlockAccess 1 (OnBlockInsert 3 s3 (OnBlockInsert 2 s2 (OnBlockInsert 1 s1
       (CacheManager_new kLRU))))"

section \<open>Properties of the composite block id\<close>

lemma kBlockIndexMask_eq: "kBlockIndexMask = mask 24"
  by (simp add: kBlockIndexMask_def kBlockIndexBits_def mask_eq_exp_minus_1)

text \<open>
  C1. For every inode id \<open>I\<close> with \<open>1 \<le> I < 2^40\<close> and every block index \<open>k < 2^24\<close>,
  decoding the composed block id gives back \<open>I\<close> and \<open>k\<close>.
\<close>

theorem block_id_roundtrip:
  assumes "1 \<le> I" and "I < 2 ^ 40" and "k < 2 ^ 24"
  shows "GetInodeId (MakeBlockId I k) = I \<and> GetBlockIndex (MakeBlockId I k) = k"
proof
  have I: "\<And>n. bit I n \<Longrightarrow> n < 40"
    using assms(2) by (metis bit_take_bit_iff less_mask_eq take_bit_eq_mask)
  have k: "\<And>n. bit k n \<Longrightarrow> n < 24"
    using assms(3) by (metis bit_take_bit_iff less_mask_eq take_bit_eq_mask)
  show "GetInodeId (MakeBlockId I k) = I"
    unfolding GetInodeId_def MakeBlockId_def kBlockIndexMask_eq kBlockIndexBits_def
    by (rule bit_word_eqI) (auto simp: bit_simps dest: I)
  show "GetBlockIndex (MakeBlockId I k) = k"
    unfolding GetBlockIndex_def MakeBlockId_def kBlockIndexMask_eq kBlockIndexBits_def
    by (rule bit_word_eqI) (auto simp: bit_simps dest: k)
qed

theorem block_id_roundtrip_witness:
  "(1::64 word) \<le> 42 \<and> (42::64 word) < 2 ^ 40 \<and> (3::32 word) < 2 ^ 24 \<and>
   GetInodeId (MakeBlockId 42 3) = 42 \<and> GetBlockIndex (MakeBlockId 42 3) = 3"
  using block_id_roundtrip [of 42 3] by simp

section \<open>Properties of the namespace engine\<close>

lemma dir_touch_present: "map_of dirs i = Some n \<Longrightarrow> dir_touch dirs i = dirs"
  by (simp add: dir_touch_def)

lemma dir_get_present: "map_of dirs i = Some n \<Longrightarrow> dir_get dirs i = n"
  by (simp add: dir_get_def)

lemma CreateDirectory_loop_existing:
  "ResolvePath_loop (dir_inodes t) path cur parts = Inr i \<Longrightarrow> parts \<noteq> [] \<Longrightarrow>
   CreateDirectory_loop t path md recursive now cur parts =
     (AlreadyExists (''directory exists: '' @ path), Some i, t)"
proof (induction parts arbitrary: cur)
  case Nil
  then show ?case by simp
next
  case (Cons part rest)
  from Cons.prems(1) obtain node c where
    node: "map_of (dir_inodes t) cur = Some node" "is_directory node"
      "map_of (children node) part = Some c" and
    rest: "ResolvePath_loop (dir_inodes t) path c rest = Inr i"
    by (auto split: option.splits if_splits)
  show ?case
  proof (cases "rest = []")
    case True
    with node rest show ?thesis
      by (simp add: CreateDirectory_step_def dir_touch_present dir_get_present)
  next
    case False
    with node rest Cons.IH [OF rest False] show ?thesis
      by (simp add: CreateDirectory_step_def dir_touch_present dir_get_present)
  qed
qed

text \<open>
  C10. When the whole path already resolves (so its terminal component exists, whatever
  its kind), \<^verbatim>\<open>Mkdir\<close> returns OK and the master's state, tree and store, is the one it
  had; for a path with at least one part \<^verbatim>\<open>CreateDirectory\<close> reports AlreadyExists with
  the id of the existing inode.
\<close>

theorem mkdir_existing_ok:
  assumes "ResolvePathLocked (inode_tree m) path = Inr i"
  shows "Mkdir m path md recursive now = (OK, m) \<and>
         (SplitPath path \<noteq> [] \<longrightarrow>
            CreateDirectory (inode_tree m) path md recursive now =
              (AlreadyExists (''directory exists: '' @ path), Some i, inode_tree m))"
proof (cases "SplitPath path = []")
  case True
  then show ?thesis
    by (simp add: Mkdir_def CreateDirectory_def IsAlreadyExists_def OK_def)
next
  case False
  with assms have "CreateDirectory_loop (inode_tree m) path md recursive now
        (root_id (inode_tree m)) (SplitPath path) =
     (AlreadyExists (''directory exists: '' @ path), Some i, inode_tree m)"
    by (intro CreateDirectory_loop_existing) (simp_all add: ResolvePathLocked_def)
  with False show ?thesis
    by (simp add: Mkdir_def CreateDirectory_def IsAlreadyExists_def AlreadyExists_def Let_def)
qed

text \<open>The witness: \<^verbatim>\<open>/f\<close> is a file of a pure-memory tree, and \<^verbatim>\<open>Mkdir("/f")\<close> is OK.\<close>

theorem mkdir_existing_ok_witness:
  "ResolvePathLocked (snd (snd (CreateFile (InodeTree_new 0) ''/f'' 420 1))) ''/f'' = Inr 2 \<and>
   map_option is_directory
     (map_of (dir_inodes (snd (snd (CreateFile (InodeTree_new 0) ''/f'' 420 1)))) 2) = Some False \<and>
   Mkdir \<lparr> inode_tree = snd (snd (CreateFile (InodeTree_new 0) ''/f'' 420 1)),
           worker_mgr = WorkerManager_new \<rparr> ''/f'' 493 False 5 =
     (OK, \<lparr> inode_tree = snd (snd (CreateFile (InodeTree_new 0) ''/f'' 420 1)),
            worker_mgr = WorkerManager_new \<rparr>)"
proof -
  have r: "ResolvePathLocked (snd (snd (CreateFile (InodeTree_new 0) ''/f'' 420 1))) ''/f'' = Inr 2"
    by code_simp
  have f: "map_option is_directory
     (map_of (dir_inodes (snd (snd (CreateFile (InodeTree_new 0) ''/f'' 420 1)))) 2) = Some False"
    by code_simp
  from r have "ResolvePathLocked (inode_tree \<lparr> inode_tree = snd (snd (CreateFile (InodeTree_new 0) ''/f'' 420 1)),
           worker_mgr = WorkerManager_new \<rparr>) ''/f'' = Inr 2"
    by simp
  from mkdir_existing_ok [OF this, of 493 False 5] r f show ?thesis
    by simp
qed

lemma not_commit_failure [simp]:
  "\<not> IsCommitFailure OK" "\<not> IsCommitFailure (NotFound m)" "\<not> IsCommitFailure (AlreadyExists m)"
  "\<not> IsCommitFailure (InvalidArgument m)"
  by (simp_all add: IsCommitFailure_def OK_def NotFound_def AlreadyExists_def InvalidArgument_def)


lemma ok_OK [simp]: "ok OK"
  by (simp add: ok_def OK_def)
















text \<open>
  \<^verbatim>\<open>UpdateSize\<close> of an id that is in the directory map writes the new size into the map
  before it commits, so there a failed commit leaves the new size in memory.
\<close>

lemma UpdateSize_directory_commit_failure:
  "IsCommitFailure (fst (UpdateSize (tree_after_start [None, Some ''IO error'']) 1 77 5)) \<and>
   map (inode_size \<circ> snd) (dir_inodes (tree_after_start [None, Some ''IO error''])) = [0] \<and>
   map (inode_size \<circ> snd)
     (dir_inodes (snd (UpdateSize (tree_after_start [None, Some ''IO error'']) 1 77 5))) = [77]"
  by code_simp

section \<open>Properties of the id allocator\<close>

lemma of_char_low_byte: "(of_char (low_byte v) :: 64 word) = take_bit 8 v"
proof -
  have "[bit v 0, bit v 1, bit v 2, bit v 3, bit v 4, bit v 5, bit v 6, bit v 7] = map (bit v) [0..<8]"
    by (simp add: upt_rec) (simp add: eval_nat_numeral)
  then show ?thesis
    unfolding low_byte_def of_char_Char
    by (simp only: horner_sum_bit_eq_take_bit)
qed

lemma le_word_le_bytes: "le_word (le_bytes n v) = take_bit (8 * n) v"
proof (induction n arbitrary: v)
  case 0
  then show ?case by simp
next
  case (Suc n)
  show ?case
    unfolding le_bytes.simps le_word.simps Suc of_char_low_byte
    by (rule bit_word_eqI) (auto simp: bit_simps)
qed

lemma length_le_bytes [simp]: "length (le_bytes n v) = n"
  by (induction n arbitrary: v) auto

lemma le_word_le_bytes_8 [simp]: "le_word (le_bytes 8 v) = v"
  by (simp add: le_word_le_bytes take_bit_word_eq_self)

lemma DecodeNextIdValue_Encode [simp]: "DecodeNextIdValue (EncodeNextIdValue v) = v"
  by (simp add: DecodeNextIdValue_def EncodeNextIdValue_def)

lemma DecodeBigEndian64_Encode [simp]: "DecodeBigEndian64 (EncodeBigEndian64 v) = v"
  by (simp add: DecodeBigEndian64_def EncodeBigEndian64_def)

lemma EncodeBigEndian64_inj: "EncodeBigEndian64 a = EncodeBigEndian64 b \<longleftrightarrow> a = b"
  by (metis DecodeBigEndian64_Encode)


lemma special_keys_distinct:
  "EncodeOwnerDictKey \<noteq> EncodeNextIdKey" "EncodeGroupDictKey \<noteq> EncodeNextIdKey"
  "i \<noteq> kNextIdKey \<Longrightarrow> EncodeInodeKey i \<noteq> EncodeNextIdKey"
  by (simp_all add: EncodeOwnerDictKey_def EncodeGroupDictKey_def EncodeNextIdKey_def
      EncodeInodeKey_def EncodeBigEndian64_inj kOwnerDictKey_def kGroupDictKey_def kNextIdKey_def)

lemma GetNextId_db: "db s = db s' \<Longrightarrow> GetNextId s = GetNextId s'"
  by (simp add: GetNextId_def cong: option.case_cong)

lemma write_ok:
  "write_errors d = [] \<Longrightarrow> db_Write d batch = (None, fold apply_op batch d)"
  by (simp add: db_Write_def)

lemma apply_op_write_errors [simp]: "write_errors (apply_op op d) = write_errors d"
  by (induction op d rule: apply_op.induct) auto

lemma fold_apply_op_write_errors [simp]: "write_errors (fold apply_op batch d) = write_errors d"
  by (induction batch arbitrary: d) auto

lemma apply_op_read_error [simp]: "next_id_read_error (apply_op op d) = next_id_read_error d"
  by (induction op d rule: apply_op.induct) auto

lemma fold_apply_op_read_error [simp]:
  "next_id_read_error (fold apply_op batch d) = next_id_read_error d"
  by (induction batch arbitrary: d) auto

lemma apply_op_other:
  "op_key op \<noteq> (CF_inodes, k) \<Longrightarrow> map_of (cf_inodes (apply_op op d)) k = map_of (cf_inodes d) k"
  by (induction op d rule: apply_op.induct) (auto simp: op_key_def update_conv' delete_conv')

lemma fold_apply_op_other:
  "\<forall>op \<in> set batch. op_key op \<noteq> (CF_inodes, k) \<Longrightarrow>
   map_of (cf_inodes (fold apply_op batch d)) k = map_of (cf_inodes d) k"
  by (induction batch arbitrary: d) (auto simp: apply_op_other)

lemma BatchPutInode_keys:
  assumes "BatchPutInode s [] i inode = (batch, s1)"
  shows "db s1 = db s \<and> (\<forall>op \<in> set batch. op_key op \<in>
           {(CF_inodes, EncodeInodeKey i), (CF_inodes, EncodeOwnerDictKey),
            (CF_inodes, EncodeGroupDictKey)})"
  using assms
  by (auto simp: BatchPutInode_def MaybePersistDict_def op_key_def split: prod.splits if_splits)

lemma length_EncodeNextIdValue [simp]: "length (EncodeNextIdValue v) = 8"
  by (simp add: EncodeNextIdValue_def)

lemma GetNextId_after_put:
  assumes "write_errors (db s) = []" and "next_id_read_error (db s) = None"
  shows "CommitBatch s (BatchPutNextId [] v) =
           (OK, s\<lparr>db := fold apply_op (BatchPutNextId [] v) (db s)\<rparr>) \<and>
         GetNextId (s\<lparr>db := fold apply_op (BatchPutNextId [] v) (db s)\<rparr>) = Inr v"
  using assms
  by (simp add: CommitBatch_def write_ok BatchPutNextId_def GetNextId_def db_Get_def update_conv'
      EncodeNextIdValue_def [symmetric] del: le_bytes.simps)


lemma AllocateId_step:
  assumes inv: "alloc_inv b t" and nw: "next_id t < 0xFFFFFFFFFFFFFC18"
    and al: "AllocateId t = (i, t')"
  shows "i = next_id t \<and> next_id t' = i + 1 \<and> i < i + 1 \<and> alloc_inv True t' \<and>
         persisted_cursor t \<le> persisted_cursor t'"
proof -
  from inv obtain s where s: "store t = Some s" "write_errors (db s) = []"
    "next_id t \<le> alloc_end t" "persisted_cursor t \<le> alloc_end t"
    "b \<or> next_id t < alloc_end t \<longrightarrow> GetNextId s = Inr (alloc_end t) \<and> 0 < alloc_end t"
    "next_id_read_error (db s) = None"
    by (auto simp: alloc_inv_def split: option.splits)
  have lt: "next_id t < next_id t + 1"
    using nw by (simp add: word_less_nat_alt unat_word_ariths)
  have lt1000: "next_id t < next_id t + 1000" "next_id t + 1 \<le> next_id t + 1000"
     "0 < next_id t + 1000"
    using nw by (simp_all add: word_less_nat_alt word_le_nat_alt unat_word_ariths)
  show ?thesis
  proof (cases "alloc_end t \<le> next_id t")
    case True
    with s(3) have eq: "alloc_end t = next_id t" by simp
    let ?s' = "s\<lparr>db := fold apply_op (BatchPutNextId [] (next_id t + 1000)) (db s)\<rparr>"
    from GetNextId_after_put [OF s(2) s(6), of "next_id t + 1000"]
    have c: "CommitBatch s (BatchPutNextId [] (next_id t + 1000)) = (OK, ?s')"
      "GetNextId ?s' = Inr (next_id t + 1000)" by auto
    from al True s(1) c have r: "i = next_id t"
      "t' = t\<lparr>next_id := next_id t + 1, alloc_end := next_id t + 1000, store := Some ?s'\<rparr>"
      by (auto simp: AllocateId_def Let_def kIdAllocBatchSize_def)
    have "persisted_cursor t' = next_id t + 1000"
      using r c by (simp add: persisted_cursor_def)
    moreover have "persisted_cursor t \<le> next_id t + 1000"
      using s(4) eq lt1000 by simp
    ultimately show ?thesis
      using r c lt lt1000 s(2) s(6) by (simp add: alloc_inv_def)
  next
    case False
    then have less: "next_id t < alloc_end t" by simp
    with s(5) have cur: "GetNextId s = Inr (alloc_end t)" "0 < alloc_end t" by auto
    from al False s(1) have r: "i = next_id t" "t' = t\<lparr>next_id := next_id t + 1\<rparr>"
      by (auto simp: AllocateId_def Let_def)
    have "next_id t + 1 \<le> alloc_end t"
      using less by (simp add: inc_le)
    then show ?thesis
      using r lt s cur by (simp add: alloc_inv_def persisted_cursor_def)
  qed
qed


lemma Open_db [simp]: "db (Open d) = d"
  by (simp add: Open_def Let_def)

lemma Recover_alloc:
  assumes st: "store t = Some s" and we: "write_errors (db s) = []"
    and root: "root_id t \<noteq> kNextIdKey"
  shows "\<exists>s'. store (snd (Recover t now)) = Some s' \<and> write_errors (db s') = [] \<and>
           next_id_read_error (db s') = next_id_read_error (db s) \<and>
           GetNextId s' = GetNextId s \<and>
           next_id (snd (Recover t now)) = alloc_end (snd (Recover t now)) \<and>
           (\<forall>c. GetNextId s = Inr c \<longrightarrow> 0 < c \<longrightarrow> next_id (snd (Recover t now)) = c)"
proof -
  define dirs where
    "dirs = fold (\<lambda>d m. AList.update (inode_id d) d m) (ScanDirectoryInodes s) []"
  define dirs2 where
    "dirs2 = fold (\<lambda>(p, n, c) m.
                     case map_of m p of
                       None \<Rightarrow> m
                     | Some node \<Rightarrow> AList.update p (set_child n c node) m)
                   (ScanAllEdges s) dirs"
  define max_id where "max_id = fold (\<lambda>(i, _) m. max m i) dirs2 (1 :: 64 word)"
  define nid where
    "nid = (case GetNextId s of
              Inr stored \<Rightarrow> if 0 < stored then stored else max_id + 1
            | Inl _ \<Rightarrow> max_id + 1)"
  define t1 where "t1 = t\<lparr>dir_inodes := dirs2, next_id := nid, alloc_end := nid\<rparr>"
  have nid: "\<forall>c. GetNextId s = Inr c \<longrightarrow> 0 < c \<longrightarrow> nid = c"
    by (auto simp: nid_def)
  have R: "Recover t now =
      (if map_of dirs2 (root_id t) = None then
         (let root = root_inode (root_id t) now;
              (batch, s1) = BatchPutInode s [] (root_id t) root;
              (st, s2) = CommitBatch s1 batch;
              t2 = t1\<lparr>store := Some s2\<rparr>
          in if \<not> ok st then (st, t2)
             else (OK, t2\<lparr>dir_inodes := AList.update (root_id t) root dirs2\<rparr>))
       else (OK, t1))"
    unfolding Recover_def dirs_def dirs2_def max_id_def nid_def t1_def Let_def
    by (simp only: st option.case)
  show ?thesis
  proof (cases "map_of dirs2 (root_id t) = None")
    case False
    then have "Recover t now = (OK, t1)"
      by (simp only: R if_False)
    then show ?thesis
      using st we nid by (simp add: t1_def)
  next
    case True
    obtain batch s1 where b: "BatchPutInode s [] (root_id t) (root_inode (root_id t) now) = (batch, s1)"
      by (cases "BatchPutInode s [] (root_id t) (root_inode (root_id t) now)") auto
    from BatchPutInode_keys [OF b] have s1: "db s1 = db s"
      and keys: "\<forall>op \<in> set batch. op_key op \<noteq> (CF_inodes, EncodeNextIdKey)"
      using special_keys_distinct root by auto
    let ?s2 = "s1\<lparr>db := fold apply_op batch (db s)\<rparr>"
    have c: "CommitBatch s1 batch = (OK, ?s2)"
      using we s1 by (simp add: CommitBatch_def write_ok)
    have "Recover t now =
        (OK, t1\<lparr>store := Some ?s2,
                dir_inodes := AList.update (root_id t) (root_inode (root_id t) now) dirs2\<rparr>)"
      using True b c by (simp add: R Let_def)
    moreover have "GetNextId ?s2 = GetNextId s"
      using fold_apply_op_other [OF keys, of "db s"]
      by (simp add: GetNextId_def db_Get_def cong: option.case_cong)
    ultimately show ?thesis
      using we nid by (simp add: t1_def)
  qed
qed

lemma Restart_alloc:
  assumes "write_errors d = []"
  shows "\<exists>s'. store (snd (Restart d now)) = Some s' \<and> write_errors (db s') = [] \<and>
           next_id_read_error (db s') = next_id_read_error d \<and>
           GetNextId s' = GetNextId (Open d) \<and>
           next_id (snd (Restart d now)) = alloc_end (snd (Restart d now)) \<and>
           (\<forall>c. GetNextId (Open d) = Inr c \<longrightarrow> 0 < c \<longrightarrow> next_id (snd (Restart d now)) = c)"
proof -
  have "\<exists>s'. store (snd (Recover (SetStore (InodeTree_new now) (Open d)) now)) = Some s' \<and>
           write_errors (db s') = [] \<and>
           next_id_read_error (db s') = next_id_read_error (db (Open d)) \<and>
           GetNextId s' = GetNextId (Open d) \<and>
           next_id (snd (Recover (SetStore (InodeTree_new now) (Open d)) now)) =
             alloc_end (snd (Recover (SetStore (InodeTree_new now) (Open d)) now)) \<and>
           (\<forall>c. GetNextId (Open d) = Inr c \<longrightarrow> 0 < c \<longrightarrow>
                next_id (snd (Recover (SetStore (InodeTree_new now) (Open d)) now)) = c)"
    by (rule Recover_alloc) (simp_all add: SetStore_def InodeTree_new_def assms kNextIdKey_def)
  then show ?thesis
    by (simp add: Restart_def)
qed

lemma Restart_inv:
  assumes "write_errors d = []" and re: "next_id_read_error d = None"
  shows "alloc_inv False (snd (Restart d now))"
proof -
  from Restart_alloc [OF assms(1), of now] re obtain s' where
    s': "store (snd (Restart d now)) = Some s'" "write_errors (db s') = []"
      "next_id_read_error (db s') = None"
      "GetNextId s' = GetNextId (Open d)"
      "next_id (snd (Restart d now)) = alloc_end (snd (Restart d now))"
      "\<forall>c. GetNextId (Open d) = Inr c \<longrightarrow> 0 < c \<longrightarrow> next_id (snd (Restart d now)) = c"
    by auto
  have "persisted_cursor (snd (Restart d now)) \<le> alloc_end (snd (Restart d now))"
  proof (cases "GetNextId (Open d)")
    case (Inl a)
    then show ?thesis using s' by (simp add: persisted_cursor_def)
  next
    case (Inr c)
    show ?thesis
    proof (cases "0 < c")
      case True
      with Inr s' show ?thesis by (simp add: persisted_cursor_def)
    next
      case False
      then have "c = 0" by (simp add: word_gt_0)
      with Inr s' show ?thesis by (simp add: persisted_cursor_def)
    qed
  qed
  with s' show ?thesis
    by (simp add: alloc_inv_def)
qed

lemma restart_step:
  assumes inv: "alloc_inv b t"
  shows "alloc_inv b (restart_tree t now) \<and> (b \<longrightarrow> next_id t \<le> next_id (restart_tree t now)) \<and>
         persisted_cursor (restart_tree t now) = persisted_cursor t"
proof -
  from inv obtain s where s: "store t = Some s" "write_errors (db s) = []"
    "next_id t \<le> alloc_end t" "persisted_cursor t \<le> alloc_end t"
    "b \<or> next_id t < alloc_end t \<longrightarrow> GetNextId s = Inr (alloc_end t) \<and> 0 < alloc_end t"
    "next_id_read_error (db s) = None"
    by (auto simp: alloc_inv_def split: option.splits)
  have g: "GetNextId (Open (db s)) = GetNextId s"
    by (rule GetNextId_db) simp
  from Restart_alloc [OF s(2), of now] g s(6) obtain s' where
    s': "store (snd (Restart (db s) now)) = Some s'" "write_errors (db s') = []"
      "next_id_read_error (db s') = None"
      "GetNextId s' = GetNextId s"
      "next_id (snd (Restart (db s) now)) = alloc_end (snd (Restart (db s) now))"
      "\<forall>c. GetNextId s = Inr c \<longrightarrow> 0 < c \<longrightarrow> next_id (snd (Restart (db s) now)) = c"
    by auto
  have rt: "restart_tree t now = snd (Restart (db s) now)"
    using s(1) by (simp add: restart_tree_def)
  have pc: "persisted_cursor (restart_tree t now) = persisted_cursor t"
    using s' s(1) by (simp add: rt persisted_cursor_def)
  have le: "persisted_cursor (restart_tree t now) \<le> alloc_end (restart_tree t now)"
  proof (cases "GetNextId s")
    case (Inl a)
    then show ?thesis using s' by (simp add: rt persisted_cursor_def)
  next
    case (Inr c)
    show ?thesis
    proof (cases "0 < c")
      case True
      with Inr s' show ?thesis by (simp add: rt persisted_cursor_def)
    next
      case False
      then have "c = 0" by (simp add: word_gt_0)
      with Inr s' show ?thesis by (simp add: rt persisted_cursor_def)
    qed
  qed
  show ?thesis
  proof (cases b)
    case True
    with s(5) have cur: "GetNextId s = Inr (alloc_end t)" "0 < alloc_end t" by auto
    with s' have "next_id (restart_tree t now) = alloc_end t" by (simp add: rt)
    with s' cur s(3) le pc True show ?thesis
      by (simp add: alloc_inv_def rt)
  next
    case False
    with s' le pc show ?thesis
      by (simp add: alloc_inv_def rt)
  qed
qed


lemma allocator_run:
  assumes "alloc_inv b t" and "no_wrap t evs"
  shows "sorted_wrt (<) (issued_ids t evs) \<and>
         (b \<longrightarrow> (\<forall>i \<in> set (issued_ids t evs). next_id t \<le> i)) \<and>
         sorted (persisted_cursor t # cursor_trace t evs)"
  using assms
proof (induction evs arbitrary: t b)
  case Nil
  then show ?case by simp
next
  case (Cons ev evs)
  show ?case
  proof (cases ev)
    case EvAllocate
    obtain i t' where al: "AllocateId t = (i, t')"
      by (cases "AllocateId t") auto
    from Cons.prems EvAllocate al have nw: "next_id t < 0xFFFFFFFFFFFFFC18" "no_wrap t' evs"
      by simp_all
    from AllocateId_step [OF Cons.prems(1) nw(1) al]
    have st: "i = next_id t" "next_id t' = i + 1" "i < i + 1" "alloc_inv True t'"
      "persisted_cursor t \<le> persisted_cursor t'"
      by blast+
    from Cons.IH [OF st(4) nw(2)]
    have ih: "sorted_wrt (<) (issued_ids t' evs)" "\<forall>j \<in> set (issued_ids t' evs). next_id t' \<le> j"
      "sorted (persisted_cursor t' # cursor_trace t' evs)"
      by simp_all
    have gt: "\<forall>j \<in> set (issued_ids t' evs). i < j"
      using ih(2) st(2,3) by (auto intro: less_le_trans)
    have "sorted (persisted_cursor t # persisted_cursor t' # cursor_trace t' evs)"
      using ih(3) st(5) by (auto intro: order_trans)
    with gt ih(1) st(1) EvAllocate al show ?thesis
      by (auto intro: less_imp_le)
  next
    case (EvRestart now)
    from restart_step [OF Cons.prems(1), of now]
    have st: "alloc_inv b (restart_tree t now)" "b \<longrightarrow> next_id t \<le> next_id (restart_tree t now)"
      "persisted_cursor (restart_tree t now) = persisted_cursor t"
      by simp_all
    from Cons.prems EvRestart have nw: "no_wrap (restart_tree t now) evs"
      by simp
    from Cons.IH [OF st(1) nw]
    have ih: "sorted_wrt (<) (issued_ids (restart_tree t now) evs)"
      "b \<longrightarrow> (\<forall>j \<in> set (issued_ids (restart_tree t now) evs). next_id (restart_tree t now) \<le> j)"
      "sorted (persisted_cursor (restart_tree t now) # cursor_trace (restart_tree t now) evs)"
      by simp_all
    with st EvRestart show ?thesis
      by (auto intro: order_trans)
  qed
qed

text \<open>
  While every write and every read of the cursor succeeds and the 64-bit counter does
  not wrap, the allocator is monotone: a master started on any database \<open>d\<close> that then
  allocates ids and restarts in any order returns ids that strictly increase, and the
  persisted cursor never decreases.
\<close>

lemma allocator_monotone_when_io_succeeds:
  assumes "write_errors d = []" and "next_id_read_error d = None"
    and "no_wrap (snd (Restart d now)) evs"
  shows "sorted_wrt (<) (issued_ids (snd (Restart d now)) evs) \<and>
         sorted (persisted_cursor (snd (Restart d now)) # cursor_trace (snd (Restart d now)) evs)"
  using allocator_run [OF Restart_inv [OF assms(1,2)] assms(3)] by simp

text \<open>
  C8 fails on the code. A two-tier master is started on an empty database (the root is
  written). \<^verbatim>\<open>CreateFile("/a")\<close> allocates id 2; the write that persists the cursor fails
  and \<^verbatim>\<open>AllocateId\<close> drops its status, the commit of the file succeeds, the call returns
  OK. The master restarts: \<^verbatim>\<open>Recover\<close> finds no cursor and falls back to the largest
  directory id plus one, which does not count the file. \<^verbatim>\<open>CreateFile("/b")\<close> returns OK
  with id 2 again, and both edges of the root now lead to inode 2.
\<close>

theorem allocator_reissues_id:
  "fst (CreateFile (tree_after_start [None, Some ''IO error'']) ''/a'' 420 2) = OK \<and>
   fst (snd (CreateFile (tree_after_start [None, Some ''IO error'']) ''/a'' 420 2)) = Some 2 \<and>
   fst (CreateFile (restart_tree tree_with_a 3) ''/b'' 420 4) = OK \<and>
   fst (snd (CreateFile (restart_tree tree_with_a 3) ''/b'' 420 4)) = Some 2 \<and>
   map_option ScanAllEdges (store (snd (snd (CreateFile (restart_tree tree_with_a 3) ''/b'' 420 4)))) =
     Some [(1, ''a'', 2), (1, ''b'', 2)]"
  unfolding tree_with_a_def by code_simp

text \<open>
  The same happens with every write succeeding when the read of the cursor fails at the
  restart: \<^verbatim>\<open>Recover\<close> takes the failed read like an absent cursor. After
  \<^verbatim>\<open>CreateFile("/f")\<close> with id 2 the persisted cursor is 1002; the master restarts on
  that database while the cursor cannot be read, and \<^verbatim>\<open>CreateFile("/g")\<close> returns id 2.
\<close>

lemma allocator_reissues_id_after_failed_read:
  "fst (snd (CreateFile (tree_after_start []) ''/f'' 420 2)) = Some 2 \<and>
   persisted_cursor (tree_with_file []) = 1002 \<and>
   fst (CreateFile (snd (Restart ((tree_db (tree_with_file []))
                                    \<lparr>next_id_read_error := Some ''IO error''\<rparr>) 3))
          ''/g'' 420 4) = OK \<and>
   fst (snd (CreateFile (snd (Restart ((tree_db (tree_with_file []))
                                         \<lparr>next_id_read_error := Some ''IO error''\<rparr>) 3))
               ''/g'' 420 4)) = Some 2"
  by code_simp

section \<open>Properties of the inode records\<close>

lemma le_word_le_bytes_4: "(ucast (le_word (le_bytes 4 (ucast (m :: 32 word)))) :: 32 word) = m"
  unfolding le_word_le_bytes
  by (rule bit_word_eqI) (auto simp: bit_simps)

lemma le_word_le_bytes_1: "(ucast (le_word (le_bytes (Suc 0) (ucast (m :: 8 word)))) :: 8 word) = m"
  unfolding le_word_le_bytes
  by (rule bit_word_eqI) (auto simp: bit_simps)

lemma DeserializeList_loop_length: "length (DeserializeList_loop n data) \<le> n"
  by (induction n data rule: DeserializeList_loop.induct) (auto simp: Let_def)

lemma of_char_nat_le: "(of_char c :: nat) \<le> 255"
proof -
  have "(of_char c :: nat) < 256" by (rule nat_of_char_less_256)
  then show ?thesis by linarith
qed

lemma DeserializeList_loop_entries:
  "x \<in> set (DeserializeList_loop n data) \<Longrightarrow> length x \<le> 255"
proof (induction n data rule: DeserializeList_loop.induct)
  case (3 n c rest)
  then show ?case
    using of_char_nat_le [of c] by (auto simp: Let_def)
qed auto

lemma DeserializeList_wf:
  "length (DeserializeList data) \<le> 255 \<and> (\<forall>x \<in> set (DeserializeList data). length x \<le> 255)"
proof (cases data)
  case Nil
  then show ?thesis by (simp add: DeserializeList_def)
next
  case (Cons c rest)
  have "length (DeserializeList_loop (of_char c) rest) \<le> of_char c"
    by (rule DeserializeList_loop_length)
  with of_char_nat_le [of c] Cons show ?thesis
    by (auto simp: DeserializeList_def dest: DeserializeList_loop_entries)
qed

lemma DeserializeList_loop_Serialize:
  "\<forall>x \<in> set lst. length x \<le> 255 \<Longrightarrow>
   DeserializeList_loop (length lst) (concat (map (\<lambda>s. char_of (length s) # s) lst)) = lst"
proof (induction lst)
  case Nil
  then show ?case by simp
next
  case (Cons x lst)
  then have "(of_char (char_of (length x) :: char) :: nat) = length x"
    by simp
  with Cons show ?case by (simp add: Let_def)
qed

lemma DeserializeList_Serialize:
  assumes "length lst \<le> 255" and "\<forall>x \<in> set lst. length x \<le> 255"
  shows "DeserializeList (SerializeList lst) = lst"
proof -
  have "SerializeList lst = char_of (length lst) # concat (map (\<lambda>s. char_of (length s) # s) lst)"
    using assms by (simp add: SerializeList_def min_def cong: map_cong)
  moreover have "(of_char (char_of (length lst) :: char) :: nat) = length lst"
    using assms by simp
  ultimately show ?thesis
    using DeserializeList_loop_Serialize [OF assms(2)] by (simp add: DeserializeList_def)
qed


lemma RebuildMap_loop_lookup:
  "RebuildMap_loop k lst m x = Some i \<Longrightarrow>
   (m x = Some i \<and> x \<notin> set lst) \<or> (\<exists>j < length lst. lst ! j = x \<and> i = of_nat (k + j + 1))"
proof (induction k lst m rule: RebuildMap_loop.induct)
  case (1 i m)
  then show ?case by simp
next
  case (2 k s rest m)
  from "2.prems" have "RebuildMap_loop (Suc k) rest (m(s \<mapsto> of_nat (k + 1))) x = Some i"
    by simp
  from "2.IH" [OF this] show ?case
  proof
    assume a: "(m(s \<mapsto> of_nat (k + 1))) x = Some i \<and> x \<notin> set rest"
    show ?thesis
    proof (cases "x = s")
      case True
      with a have "i = of_nat (k + 0 + 1)" by simp
      with True show ?thesis by (intro disjI2 exI [of _ 0]) simp
    next
      case False
      with a show ?thesis by simp
    qed
  next
    assume "\<exists>j < length rest. rest ! j = x \<and> i = of_nat (Suc k + j + 1)"
    then obtain j where "j < length rest" "rest ! j = x" "i = of_nat (Suc k + j + 1)" by auto
    then show ?thesis
      by (intro disjI2 exI [of _ "Suc j"]) simp
  qed
qed

lemma dict_ok_RebuildMap:
  assumes "length lst \<le> 255" and "\<forall>x \<in> set lst. length x \<le> 255"
  shows "dict_ok lst (RebuildMap lst)"
  unfolding dict_ok_def
proof (intro conjI allI impI)
  fix x i assume "RebuildMap lst x = Some i"
  then obtain j where j: "j < length lst" "lst ! j = x" "i = (of_nat (j + 1) :: 8 word)"
    using RebuildMap_loop_lookup [of 0 lst Map.empty x i] by (auto simp: RebuildMap_def)
  with assms(1) have u: "unat i = j + 1"
    by (simp add: unat_of_nat del: of_nat_Suc of_nat_add)
  then show "i \<noteq> 0" by auto
  from u j show "unat i \<le> length lst" by simp
  from u j show "lst ! (unat i - 1) = x" by simp
qed (use assms in auto)

lemma GetOrAdd_ok:
  assumes ok: "dict_ok lst m" and f: "fits x lst m"
    and g: "GetOrAdd x m lst = (i, m', lst', added)"
  shows "dict_ok lst' m' \<and> Lookup i lst' = x \<and> (added \<or> lst' = lst)"
proof (cases "x = []")
  case True
  with g ok show ?thesis by (auto simp: GetOrAdd_def Lookup_def)
next
  case False
  show ?thesis
  proof (cases "m x")
    case (Some j)
    with g False have r: "i = j" "m' = m" "lst' = lst" by (auto simp: GetOrAdd_def)
    from ok Some have "j \<noteq> 0" "unat j \<le> length lst" "lst ! (unat j - 1) = x"
      by (auto simp: dict_ok_def)
    with r ok show ?thesis by (simp add: Lookup_def)
  next
    case None
    with f False have room: "length lst < 255" "length x \<le> 255" by (auto simp: fits_def)
    with g False None have r: "i = of_nat (length lst + 1)" "m' = m(x \<mapsto> of_nat (length lst + 1))"
      "lst' = lst @ [x]" "added"
      by (auto simp: GetOrAdd_def Let_def)
    from room have u: "unat (of_nat (length lst + 1) :: 8 word) = length lst + 1"
      by (simp add: unat_of_nat del: of_nat_Suc of_nat_add)
    have "dict_ok (lst @ [x]) (m(x \<mapsto> of_nat (length lst + 1)))"
      unfolding dict_ok_def
    proof (intro conjI allI impI ballI)
      show "length (lst @ [x]) \<le> 255" using room by simp
      fix y assume "y \<in> set (lst @ [x])"
      then show "length y \<le> 255" using ok room by (auto simp: dict_ok_def)
    next
      fix y j assume a: "(m(x \<mapsto> of_nat (length lst + 1))) y = Some j"
      show "j \<noteq> 0" "unat j \<le> length (lst @ [x])" "(lst @ [x]) ! (unat j - 1) = y"
      proof -
        have "j \<noteq> 0 \<and> unat j \<le> length (lst @ [x]) \<and> (lst @ [x]) ! (unat j - 1) = y"
        proof (cases "y = x")
          case True
          with a have "j = of_nat (length lst + 1)" by simp
          with u True show ?thesis by (auto simp del: of_nat_Suc of_nat_add)
        next
          case False
          with a have "m y = Some j" by simp
          with ok have "j \<noteq> 0" "unat j \<le> length lst" "lst ! (unat j - 1) = y"
            by (auto simp: dict_ok_def)
          moreover from this have "unat j \<noteq> 0" by (simp add: unat_eq_0)
          ultimately show ?thesis by (auto simp: nth_append)
        qed
        then show "j \<noteq> 0" "unat j \<le> length (lst @ [x])" "(lst @ [x]) ! (unat j - 1) = y"
          by simp_all
      qed
    qed
    moreover have "Lookup (of_nat (length lst + 1)) (lst @ [x]) = x"
      using u by (auto simp: Lookup_def simp del: of_nat_Suc of_nat_add)
    ultimately show ?thesis using r by simp
  qed
qed


lemma flags_roundtrip:
  "((if dir then kInodeEntryFlagDirectory else 0) OR (if com then kInodeEntryFlagComplete else 0))
     AND kInodeEntryFlagDirectory \<noteq> 0 \<longleftrightarrow> dir"
  "((if dir then kInodeEntryFlagDirectory else 0) OR (if com then kInodeEntryFlagComplete else 0))
     AND kInodeEntryFlagComplete \<noteq> 0 \<longleftrightarrow> com"
  by (cases dir; cases com; simp add: kInodeEntryFlagDirectory_def kInodeEntryFlagComplete_def)+

lemma Deserialize_Serialize:
  assumes "GetOrAddOwnerId d (owner inode) = (oid, d1)"
    and "GetOrAddGroupId d1 (group inode) = (gid, d2)"
  shows "snd (SerializeInodeEntry inode d) = d2 \<and>
         DeserializeInodeEntry i (fst (SerializeInodeEntry inode d)) d' =
           inode\<lparr>inode_id := i, children := [], owner := GetOwner d' oid,
                 group := GetGroup d' gid\<rparr>"
  using assms
  by (cases inode)
     (simp add: SerializeInodeEntry_def DeserializeInodeEntry_def Let_def sizeof_InodeEntry_def
        field_bytes_def Inode_default_def le_word_le_bytes_4 le_word_le_bytes_1
        kInodeEntryFlagDirectory_def kInodeEntryFlagComplete_def
      del: le_bytes.simps)

lemma Open_dict:
  "owners (dict (Open d)) =
     (case map_of (cf_inodes d) EncodeOwnerDictKey of Some v \<Rightarrow> DeserializeList v | None \<Rightarrow> [])"
  "groups (dict (Open d)) =
     (case map_of (cf_inodes d) EncodeGroupDictKey of Some v \<Rightarrow> DeserializeList v | None \<Rightarrow> [])"
  by (simp_all add: Open_def Let_def db_Get_def LoadOwners_def LoadGroups_def OwnerGroupDict_empty_def
      split: option.splits)


lemma next_write_ok_Write:
  assumes "next_write_ok d"
  shows "\<exists>dd. db_Write d batch = (None, fold apply_op batch dd) \<and> cf_inodes dd = cf_inodes d"
proof (cases "write_errors d")
  case Nil
  then show ?thesis by (intro exI [of _ d]) (simp add: db_Write_def)
next
  case (Cons e rest)
  with assms have "e = None" by (cases e) (auto simp: next_write_ok_def)
  with Cons show ?thesis
    by (intro exI [of _ "d\<lparr>write_errors := rest\<rparr>"]) (simp add: db_Write_def)
qed

lemma store_wf_Open: "store_wf (Open d)"
proof -
  have wfl: "\<And>data. dict_ok (DeserializeList data) (RebuildMap (DeserializeList data))"
    using DeserializeList_wf by (intro dict_ok_RebuildMap) auto
  have e: "dict_ok [] Map.empty"
    by (simp add: dict_ok_def)
  have "dict_ok (owners (dict (Open d))) (owner_to_id (dict (Open d)))"
    by (simp add: Open_def Let_def LoadOwners_def LoadGroups_def OwnerGroupDict_empty_def
        wfl e split: option.splits)
  moreover have "dict_ok (groups (dict (Open d))) (group_to_id (dict (Open d)))"
    by (simp add: Open_def Let_def LoadOwners_def LoadGroups_def OwnerGroupDict_empty_def
        wfl e split: option.splits)
  ultimately show ?thesis
    by (simp add: store_wf_def)
qed

text \<open>
  C3, as the code has it. The store is well formed and in step with its database, the
  write succeeds, the id is not one of the two dictionary keys, and the owner and the
  group each fit (at most 255 bytes; empty, or in the dictionary, or the dictionary has
  fewer than 255 entries). Then the inode written through the store and read by id
  after a cold restart has the same value in every field; the id is the key and the
  children map is empty.
\<close>

theorem persist_roundtrip_ok:
  assumes wf: "store_wf s" and w: "next_write_ok (db s)"
    and key: "i \<noteq> kOwnerDictKey" "i \<noteq> kGroupDictKey"
    and fo: "fits (owner inode) (owners (dict s)) (owner_to_id (dict s))"
    and fg: "fits (group inode) (groups (dict s)) (group_to_id (dict s))"
  shows "persist_roundtrip s i inode = Inr (inode\<lparr>inode_id := i, children := []\<rparr>)"
proof -
  obtain oid mo lo ao where
    go: "GetOrAdd (owner inode) (owner_to_id (dict s)) (owners (dict s)) = (oid, mo, lo, ao)"
    by (metis prod_cases4)
  obtain gid mg lg ag where
    gg: "GetOrAdd (group inode) (group_to_id (dict s)) (groups (dict s)) = (gid, mg, lg, ag)"
    by (metis prod_cases4)
  define d1 where "d1 = (dict s)\<lparr>owners := lo, owner_to_id := mo, dirty := (dirty (dict s) \<or> ao)\<rparr>"
  define d2 where "d2 = d1\<lparr>groups := lg, group_to_id := mg, dirty := (dirty d1 \<or> ag)\<rparr>"
  have o1: "GetOrAddOwnerId (dict s) (owner inode) = (oid, d1)"
    by (simp add: GetOrAddOwnerId_def go d1_def)
  have g1: "GetOrAddGroupId d1 (group inode) = (gid, d2)"
    by (simp add: GetOrAddGroupId_def d1_def gg d2_def)
  from wf have oks: "dict_ok (owners (dict s)) (owner_to_id (dict s))"
    "dict_ok (groups (dict s)) (group_to_id (dict s))"
    by (simp_all add: store_wf_def)
  from GetOrAdd_ok [OF oks(1) fo go]
  have ko: "dict_ok lo mo" "Lookup oid lo = owner inode" "ao \<or> lo = owners (dict s)" by simp_all
  from GetOrAdd_ok [OF oks(2) fg gg]
  have kg: "dict_ok lg mg" "Lookup gid lg = group inode" "ag \<or> lg = groups (dict s)" by simp_all
  have d2f: "owners d2 = lo" "groups d2 = lg" "dirty d2 = (dirty (dict s) \<or> ao \<or> ag)"
    by (simp_all add: d2_def d1_def)
  define bytes where "bytes = fst (SerializeInodeEntry inode (dict s))"
  from Deserialize_Serialize [OF o1 g1]
  have ser: "SerializeInodeEntry inode (dict s) = (bytes, d2)"
    and des: "\<And>d'. DeserializeInodeEntry i bytes d' =
                inode\<lparr>inode_id := i, children := [], owner := GetOwner d' oid,
                      group := GetGroup d' gid\<rparr>"
    by (simp_all add: bytes_def prod_eq_iff)
  define batch where
    "batch = [BatchPut CF_inodes (EncodeInodeKey i) bytes] @
             (if dirty d2
              then [BatchPut CF_inodes EncodeOwnerDictKey (SerializeList lo),
                    BatchPut CF_inodes EncodeGroupDictKey (SerializeList lg)]
              else [])"
  have "\<exists>s1. BatchPutInode s [] i inode = (batch, s1) \<and> db s1 = db s"
  proof (cases "dirty d2")
    case True
    then show ?thesis
      by (simp add: BatchPutInode_def ser MaybePersistDict_def batch_def d2f(1,2))
  next
    case False
    then show ?thesis
      by (simp add: BatchPutInode_def ser MaybePersistDict_def batch_def)
  qed
  then obtain s1 where bp: "BatchPutInode s [] i inode = (batch, s1)" and s1: "db s1 = db s"
    by auto
  from next_write_ok_Write [OF w, of batch] obtain dd where
    dd: "db_Write (db s) batch = (None, fold apply_op batch dd)" "cf_inodes dd = cf_inodes (db s)"
    by auto
  define D2 where "D2 = fold apply_op batch dd"
  have cb: "CommitBatch s1 batch = (OK, s1\<lparr>db := D2\<rparr>)"
    by (simp add: CommitBatch_def s1 dd D2_def)
  have kne: "EncodeInodeKey i \<noteq> EncodeOwnerDictKey" "EncodeInodeKey i \<noteq> EncodeGroupDictKey"
    "EncodeOwnerDictKey \<noteq> EncodeGroupDictKey"
    using key
    by (simp_all add: EncodeInodeKey_def EncodeOwnerDictKey_def EncodeGroupDictKey_def
        EncodeBigEndian64_inj kOwnerDictKey_def kGroupDictKey_def)
  have rec: "map_of (cf_inodes D2) (EncodeInodeKey i) = Some bytes"
    using kne by (simp add: D2_def batch_def update_conv')
  have od: "map_of (cf_inodes D2) EncodeOwnerDictKey =
      (if dirty d2 then Some (SerializeList lo) else map_of (cf_inodes (db s)) EncodeOwnerDictKey)"
    using kne by (simp add: D2_def batch_def update_conv' dd(2))
  have gd: "map_of (cf_inodes D2) EncodeGroupDictKey =
      (if dirty d2 then Some (SerializeList lg) else map_of (cf_inodes (db s)) EncodeGroupDictKey)"
    using kne by (simp add: D2_def batch_def update_conv' dd(2))
  have lo: "owners (dict (Open D2)) = lo"
  proof (cases "dirty d2")
    case True
    with od ko(1) show ?thesis
      by (simp add: Open_dict DeserializeList_Serialize dict_ok_def)
  next
    case False
    with d2f have nd: "\<not> dirty (dict s)" "\<not> ao" by simp_all
    with wf ko(3) have "owners (dict (Open (db s))) = lo" by (simp add: store_wf_def)
    with od False show ?thesis by (simp add: Open_dict)
  qed
  have lg: "groups (dict (Open D2)) = lg"
  proof (cases "dirty d2")
    case True
    with gd kg(1) show ?thesis
      by (simp add: Open_dict DeserializeList_Serialize dict_ok_def)
  next
    case False
    with d2f have nd: "\<not> dirty (dict s)" "\<not> ag" by simp_all
    with wf kg(3) have "groups (dict (Open (db s))) = lg" by (simp add: store_wf_def)
    with gd False show ?thesis by (simp add: Open_dict)
  qed
  have "GetInode (Open D2) i =
      Inr (inode\<lparr>inode_id := i, children := [], owner := owner inode, group := group inode\<rparr>)"
    using rec lo lg ko(2) kg(2)
    by (simp add: GetInode_def db_Get_def des GetOwner_def GetGroup_def)
  also have "inode\<lparr>inode_id := i, children := [], owner := owner inode, group := group inode\<rparr> =
      inode\<lparr>inode_id := i, children := []\<rparr>"
    by (cases inode) simp
  finally show ?thesis
    by (simp add: persist_roundtrip_def bp cb)
qed

theorem persist_roundtrip_ok_witness:
  "store_wf (Open RocksDB_empty) \<and> next_write_ok (db (Open RocksDB_empty)) \<and>
   (42 :: 64 word) \<noteq> kOwnerDictKey \<and> (42 :: 64 word) \<noteq> kGroupDictKey \<and>
   fits ''alice'' (owners (dict (Open RocksDB_empty))) (owner_to_id (dict (Open RocksDB_empty))) \<and>
   fits ''staff'' (groups (dict (Open RocksDB_empty))) (group_to_id (dict (Open RocksDB_empty))) \<and>
   persist_roundtrip (Open RocksDB_empty) 42
     (Inode_default\<lparr>inode_id := 42, parent_id := 1, name := ''train.csv'',
        inode_size := 209715200, owner := ''alice'', group := ''staff'',
        creation_time_ms := 1700000000000, modification_time_ms := 1700000000001\<rparr>) =
   Inr (Inode_default\<lparr>inode_id := 42, parent_id := 1, name := ''train.csv'',
          inode_size := 209715200, owner := ''alice'', group := ''staff'',
          creation_time_ms := 1700000000000, modification_time_ms := 1700000000001\<rparr>)"
proof -
  have h1: "store_wf (Open RocksDB_empty)"
    by (rule store_wf_Open)
  have h2: "next_write_ok (db (Open RocksDB_empty))"
    by (simp add: next_write_ok_def RocksDB_empty_def)
  have h3: "(42 :: 64 word) \<noteq> kOwnerDictKey" "(42 :: 64 word) \<noteq> kGroupDictKey"
    by (simp_all add: kOwnerDictKey_def kGroupDictKey_def)
  have h4: "fits ''alice'' (owners (dict (Open RocksDB_empty))) (owner_to_id (dict (Open RocksDB_empty)))"
    "fits ''staff'' (groups (dict (Open RocksDB_empty))) (group_to_id (dict (Open RocksDB_empty)))"
    by (simp_all add: fits_def Open_dict RocksDB_empty_def)
  have c: "(Inode_default\<lparr>inode_id := 42, parent_id := 1, name := ''train.csv'',
        inode_size := 209715200, owner := ''alice'', group := ''staff'',
        creation_time_ms := 1700000000000, modification_time_ms := 1700000000001\<rparr>)
        \<lparr>inode_id := 42, children := []\<rparr> =
      Inode_default\<lparr>inode_id := 42, parent_id := 1, name := ''train.csv'',
        inode_size := 209715200, owner := ''alice'', group := ''staff'',
        creation_time_ms := 1700000000000, modification_time_ms := 1700000000001\<rparr>"
    by (simp add: Inode_default_def)
  from persist_roundtrip_ok [where s = "Open RocksDB_empty" and i = 42 and inode =
      "Inode_default\<lparr>inode_id := 42, parent_id := 1, name := ''train.csv'',
        inode_size := 209715200, owner := ''alice'', group := ''staff'',
        creation_time_ms := 1700000000000, modification_time_ms := 1700000000001\<rparr>"]
    h1 h2 h3 h4 c
  show ?thesis by simp
qed

text \<open>
  C3 as stated fails for an owner of 256 bytes: the persisted dictionary has one length
  byte for each entry and \<^verbatim>\<open>SerializeList\<close> cuts the entry to 255 bytes, so after the
  cold restart the inode has the first 255 bytes of its owner.
\<close>

theorem persist_roundtrip_counterexample:
  "map_sum message owner
     (persist_roundtrip (Open RocksDB_empty) 42
        (Inode_default\<lparr>inode_id := 42, owner := replicate 256 CHR ''a''\<rparr>)) =
   Inr (replicate 255 CHR ''a'')"
  by code_simp

section \<open>Properties of the worker registry\<close>








text \<open>
  The difference wraps: a worker registered with capacity 100 and 150 bytes used has
  \<open>2^64 - 50\<close> bytes available for the loop, and is preferred to an empty worker of
  capacity 1000.
\<close>

lemma overfull_worker_selected:
  "SelectWorkerForWrite
     (snd (RegisterWorker (snd (RegisterWorker WorkerManager_new ''w1:29999'' 100 150 0))
        ''w2:29999'' 1000 0 0)) = Inr 1"
  by code_simp

section \<open>Properties of the cache manager\<close>

text \<open>
  C6, as the code has it. With the LRU policy, after inserting blocks 1, 2 and 3 of 100
  bytes each and then accessing block 1, the order of the policy is 2, 3, 1, and a request
  to evict 200 bytes returns the blocks 2 and 3, in this order: block 2 alone frees 100
  bytes, less than the 200 asked for.
\<close>

theorem lru_seed_eviction:
  "map_option fst (GetEvictionCandidates (lru_seed 100 100 100) 200) = Some [2, 3]"
  by code_simp

text \<open>C6 as stated fails: the result is not the single block 2, block 3 is evicted too.\<close>

theorem lru_seed_eviction_counterexample:
  "map_option fst (GetEvictionCandidates (lru_seed 100 100 100) 200) \<noteq> Some [2] \<and>
   3 \<in> set (fst (the (GetEvictionCandidates (lru_seed 100 100 100) 200)))"
  by code_simp

text \<open>
  The test of the repository (\<^verbatim>\<open>CacheManagerTest.LRU_EvictionOrder\<close>) inserts the blocks
  with 100, 200 and 300 bytes; then block 2 alone frees the 200 bytes.
\<close>

lemma lru_repository_test:
  "map_option fst (GetEvictionCandidates (lru_seed 100 200 300) 200) = Some [2]"
  by code_simp

end
